theory Spec2Isabelle
  imports Complex_Main "HOL-Library.Word"
begin

section \<open>The Pioneer control task: data model\<close>

text \<open>
  The development embeds the task \<^verbatim>\<open>Control::Pioneer::Task\<close> (the file with the
  two dispatch functions \<^verbatim>\<open>pioneerMessagesParse\<close> and
  \<^verbatim>\<open>pioneerCommandRepliesParse\<close>, \<^verbatim>\<open>setPioneerTime\<close>,
  \<^verbatim>\<open>sendCommand\<close>, the telemetry handlers and the heartbeat consumer).

  The headers \<^verbatim>\<open>Comm.hpp\<close>, \<^verbatim>\<open>Logger.hpp\<close>, \<^verbatim>\<open>ProtocolCommands.hpp\<close>,
  \<^verbatim>\<open>ProtocolMessages.hpp\<close> and \<^verbatim>\<open>ProtocolPack.hpp\<close> are not among the sources.
  What the task uses of them (type codes, \<^verbatim>\<open>unpack\<close>, \<^verbatim>\<open>pack\<close>, the outcome of a
  socket write, the wall clock) is a parameter of the model, collected in the record
  \<open>env\<close>; the general theorems hold for every \<open>env\<close>, and the closed ones
  evaluate the functions at a sample \<open>env\<close>.

  Values of type \<^verbatim>\<open>double\<close> (\<^verbatim>\<open>fp64_t\<close>) are idealised as \<^typ>\<open>real\<close>. The
  conversion of a value to \<^verbatim>\<open>fp32_t\<close> is the parameter \<open>fp32\<close> of \<open>env\<close>: the
  identity in exact arithmetic, \<open>binary32\<close> (defined below) on an IEEE-754 platform.
\<close>

type_synonym byte = "8 word"

text \<open>
  A \<^verbatim>\<open>uint8_t buf[]\<close> argument: the memory the pointer designates, indexed
  relative to it. The window a caller declares is \<open>[startIndex, startIndex + length)\<close>.
\<close>

type_synonym buffer = "int \<Rightarrow> byte"

text \<open>\<^verbatim>\<open>Network::Address\<close>: an IPv4 address, compared by value.\<close>

type_synonym Address = "32 word"

record Arguments =
  comm_timeout :: "8 word"
  listen_mode :: bool
  filter_udp_to_tcp_address :: bool
  generate_estimate_state_from_telemetry :: bool
  TCP_port :: "16 word"
  TCP_addr :: Address
  UDP_listen_port :: "16 word"
  log_pioneer_raw :: bool
  log_pioneer_imc :: bool
  set_time_of_vehicle :: bool

datatype LoggerEnum = LOGGER_TELEMETRY | LOGGER_COMMANDS | LOGGER_REPLIES

subsection \<open>Protocol records\<close>

text \<open>
  The structs are declared in the absent protocol headers; each record below holds the
  fields that the task reads or writes. \<^verbatim>\<open>time\<close> is handed to
  \<^verbatim>\<open>setPioneerTime(uint32_t)\<close>; \<^verbatim>\<open>connection_duration\<close> is assigned through an
  \<^verbatim>\<open>(int16_t)\<close> cast and \<^verbatim>\<open>unix_timestamp\<close> through an \<^verbatim>\<open>(int32_t)\<close> cast. The
  scaled integer fields are integers; the angles are reals, which covers an integer as
  well as a floating declaration. \<open>other_members\<close> stands for the members of the
  watchdog command that the task never assigns.
\<close>

record DataVersion1Telemetry =
  v1_time :: "32 word"
  battery_voltage :: int

record DataVersion2Telemetry =
  v2_time :: "32 word"
  rt_clock :: int
  roll :: real
  pitch :: real
  yaw :: real
  depth :: int
  temp_water :: int

record DataVersion2Compasscalibration =
  progress_thruster :: int

record ReplyVersion2Ack =
  ack_payload :: "byte list"

record ReplyVersion2Ping =
  ping_payload :: "byte list"

record ReplyVersion2GetCameraParameters =
  camera_bitrate :: int

record CmdVersion1Watchdog =
  other_members :: "byte list"
  connection_duration :: "16 word"

record CmdVersion2SetSystemTime =
  unix_timestamp :: "32 word"

record CmdVersion1UserGeoLocation =
  latitude :: real
  longitude :: real

text \<open>
  \<^verbatim>\<open>sendCommand\<close> is a template over the message struct; the datatype collects the
  three instances the task creates.
\<close>

datatype command =
    Watchdog CmdVersion1Watchdog
  | SetSystemTime CmdVersion2SetSystemTime
  | UserGeoLocation CmdVersion1UserGeoLocation

subsection \<open>Messages published on the bus, and observable effects\<close>

datatype imc_message =
    DevDataBinary (binary_value: "byte list")
  | Depth (depth_value: real)
  | EulerAngles (euler_time: real) (euler_phi: real) (euler_theta: real)
      (euler_psi: real) (euler_psi_magnetic: real)
  | Temperature (temperature_value: real)
  | EstimatedState (es_lat: real) (es_lon: real) (es_phi: real) (es_theta: real)
      (es_psi: real) (es_depth: real)

text \<open>
  Every effect the task has on its surroundings is appended to a trace: a write on the
  TCP socket, a write to one of the raw loggers, a message dispatched on the bus, and
  the log lines (with their format strings).
\<close>

datatype event =
    SocketWrite "byte list"
  | LoggerWrite LoggerEnum "byte list"
  | Dispatch imc_message
  | Debug string
  | War string
  | Err string


text \<open>
  The members of the task that the embedded functions touch, the number of clock
  readings taken so far, the indices of the receive buffer read by the subscript
  expressions of the dispatch functions, and the trace of effects.
  \<open>m_TCP_connected\<close> is what \<^verbatim>\<open>m_TCP_comm->isConnected()\<close> answers.
\<close>

record Task =
  m_args :: Arguments
  m_TCP_connected :: bool
  m_start_time :: real
  m_last_set_time :: real
  m_watchdog_msg :: CmdVersion1Watchdog
  clock_reads :: nat
  reads :: "int list"
  trace :: "event list"

text \<open>
  The parameters: type codes (\<^verbatim>\<open>ProtocolMessages.hpp\<close>, \<^verbatim>\<open>ProtocolCommands.hpp\<close>),
  the codec (\<^verbatim>\<open>ProtocolPack::Pack\<close>; \<open>Inl\<close> is a raised \<^verbatim>\<open>std::exception\<close> with its
  \<^verbatim>\<open>what()\<close>, \<open>Inr\<close> the returned count and the filled struct), the outcome of a
  write on the connected socket (a raised exception or the byte count), the successive
  readings of \<^verbatim>\<open>Time::Clock::getSinceEpoch()\<close>, \<^verbatim>\<open>getSystemId()\<close>, and the
  conversion of a value to \<^verbatim>\<open>fp32_t\<close>.
\<close>

record env =
  PIONEER_MSG_VERSION_1_TELEMETRY_CODE :: int
  PIONEER_MSG_VERSION_2_TELEMETRY_CODE :: int
  PIONEER_MSG_VERSION_2_COMPASS_CALIBRATION_CODE :: int
  PIONEER_REPLY_VERSION_2_ACK :: int
  PIONEER_REPLY_VERSION_2_PING :: int
  PIONEER_REPLY_VERSION_2_GET_CAMERA :: int
  unpack_V1Telemetry :: "buffer \<Rightarrow> int \<Rightarrow> int \<Rightarrow> string + int \<times> DataVersion1Telemetry"
  unpack_V2Telemetry :: "buffer \<Rightarrow> int \<Rightarrow> int \<Rightarrow> string + int \<times> DataVersion2Telemetry"
  unpack_V2Compasscalibration ::
    "buffer \<Rightarrow> int \<Rightarrow> int \<Rightarrow> string + int \<times> DataVersion2Compasscalibration"
  unpack_Ack :: "buffer \<Rightarrow> int \<Rightarrow> int \<Rightarrow> string + int \<times> ReplyVersion2Ack"
  unpack_Ping :: "buffer \<Rightarrow> int \<Rightarrow> int \<Rightarrow> string + int \<times> ReplyVersion2Ping"
  unpack_GetCamera ::
    "buffer \<Rightarrow> int \<Rightarrow> int \<Rightarrow> string + int \<times> ReplyVersion2GetCameraParameters"
  pack :: "command \<Rightarrow> string + byte list"
  socket_write :: "byte list \<Rightarrow> string + int"
  clock :: "nat \<Rightarrow> real"
  getSystemId :: "16 word"
  fp32 :: "real \<Rightarrow> real"

section \<open>Computations with effects, exceptions and undefined behaviour\<close>

text \<open>
  A computation takes the task and returns the task with either a value or a fault. A
  fault is a raised \<^verbatim>\<open>std::exception\<close>, which a \<^verbatim>\<open>catch\<close> handles, or undefined
  behaviour (a floating value converted to an integer type that cannot hold it),
  which nothing handles.
\<close>

datatype fault = Raise string | Undefined

type_synonym 'a comp = "Task \<Rightarrow> (fault + 'a) \<times> Task"

definition ret :: "'a \<Rightarrow> 'a comp" where
  "ret x w = (Inr x, w)"

definition raise :: "string \<Rightarrow> 'a comp" where
  "raise e w = (Inl (Raise e), w)"

definition bnd :: "'a comp \<Rightarrow> ('a \<Rightarrow> 'b comp) \<Rightarrow> 'b comp" where
  "bnd m f w = (case m w of (Inl e, w') \<Rightarrow> (Inl e, w') | (Inr x, w') \<Rightarrow> f x w')"

definition try_catch :: "'a comp \<Rightarrow> (string \<Rightarrow> 'a comp) \<Rightarrow> 'a comp" where
  "try_catch m h w =
     (case m w of
        (Inl (Raise e), w') \<Rightarrow> h e w'
      | (Inl Undefined, w') \<Rightarrow> (Inl Undefined, w')
      | (Inr x, w') \<Rightarrow> (Inr x, w'))"

definition emit :: "event \<Rightarrow> unit comp" where
  "emit ev w = (Inr (), w\<lparr>trace := trace w @ [ev]\<rparr>)"

definition dispatch :: "imc_message \<Rightarrow> unit comp" where
  "dispatch m = emit (Dispatch m)"

text \<open>The subscript expression \<^verbatim>\<open>buf[i]\<close> read as a value.\<close>

definition rd :: "buffer \<Rightarrow> int \<Rightarrow> byte comp" where
  "rd buf i w = (Inr (buf i), w\<lparr>reads := reads w @ [i]\<rparr>)"

text \<open>\<^verbatim>\<open>Time::Clock::getSinceEpoch()\<close>: each call takes the next reading.\<close>

definition getSinceEpoch :: "env \<Rightarrow> real comp" where
  "getSinceEpoch E w = (Inr (clock E (clock_reads w)), w\<lparr>clock_reads := Suc (clock_reads w)\<rparr>)"

text \<open>
  A raised exception of the codec or the socket becomes a fault of the computation.
\<close>

definition lift :: "string + 'a \<Rightarrow> 'a comp" where
  "lift r = (case r of Inl e \<Rightarrow> raise e | Inr x \<Rightarrow> ret x)"

text \<open>
  Conversion of a \<^verbatim>\<open>double\<close> to a signed integer type of \<open>w\<close> bits: the value is
  truncated towards zero; when the truncated value is not representable the behaviour
  is undefined.
\<close>

definition trunc :: "real \<Rightarrow> int" where
  "trunc x = (if 0 \<le> x then \<lfloor>x\<rfloor> else \<lceil>x\<rceil>)"

definition to_int16 :: "real \<Rightarrow> (16 word) comp" where
  "to_int16 x w =
     (if - 32768 \<le> trunc x \<and> trunc x \<le> 32767 then (Inr (word_of_int (trunc x)), w)
      else (Inl Undefined, w))"

definition to_int32 :: "real \<Rightarrow> (32 word) comp" where
  "to_int32 x w =
     (if - 2147483648 \<le> trunc x \<and> trunc x \<le> 2147483647 then (Inr (word_of_int (trunc x)), w)
      else (Inl Undefined, w))"

section \<open>The connectionless channel's acceptance predicate\<close>

text \<open>
  The lambda \<^verbatim>\<open>udp_package_acceptance\<close> of \<^verbatim>\<open>onResourceAcquisition\<close>:
  \<^verbatim>\<open>!m_args.filter_udp_to_tcp_address || m_args.TCP_addr == *address ? true : false\<close>.
  The conditional operator binds weaker than \<^verbatim>\<open>||\<close>, so the disjunction is its
  condition. The port takes no part.
\<close>

definition udp_package_acceptance :: "Arguments \<Rightarrow> Address \<Rightarrow> 16 word \<Rightarrow> bool" where
  "udp_package_acceptance args address port =
     (if \<not> filter_udp_to_tcp_address args \<or> TCP_addr args = address then True else False)"

section \<open>Sending commands\<close>

text \<open>
  \<^verbatim>\<open>dispatchAsDevDataBinary(uint8_t* buf, uint16_t length)\<close>: nothing unless the
  structured echo is configured; otherwise the \<open>length\<close> bytes at the pointer are
  dispatched as one \<open>DevDataBinary\<close>. The callers pass an \<^verbatim>\<open>int\<close>, which the
  parameter type reduces modulo \<open>2 ^ 16\<close>.
\<close>

definition dispatchAsDevDataBinary :: "buffer \<Rightarrow> int \<Rightarrow> unit comp" where
  "dispatchAsDevDataBinary buf len w =
     (if \<not> log_pioneer_imc (m_args w) then ret () w
      else dispatch (DevDataBinary (map (\<lambda>k. buf (int k)) [0..<nat (len mod 65536)])) w)"

text \<open>The send buffer \<^verbatim>\<open>m_buf_send\<close> after \<^verbatim>\<open>pack\<close> wrote the bytes \<open>bs\<close> at its start.\<close>

definition buffer_of :: "byte list \<Rightarrow> buffer" where
  "buffer_of bs i = (if 0 \<le> i \<and> i < int (length bs) then bs ! nat i else 0)"

text \<open>
  Modelled from the spec: \<^verbatim>\<open>TCPComm::sendData\<close> of the absent \<^verbatim>\<open>Comm.hpp\<close>. It is
  a no-op returning zero bytes sent when the channel is Disconnected or when the
  subsystem is configured in listen-only mode; otherwise it writes synchronously and
  returns the byte count or raises a transport error on socket failure.
\<close>

definition sendData :: "env \<Rightarrow> byte list \<Rightarrow> int comp" where
  "sendData E bs w =
     (if \<not> m_TCP_connected w \<or> listen_mode (m_args w) then ret 0 w
      else bnd (emit (SocketWrite bs)) (\<lambda>_. lift (socket_write E bs)) w)"

text \<open>
  \<^verbatim>\<open>sendCommand\<close>. The guard returns 0 before anything else is done. The
  \<^verbatim>\<open>try\<close> block packs, sends, and on a positive count writes the debug line, the
  outbound command logger and the structured echo; the handler logs the exception and
  the function returns \<open>sd\<close>, which is still 0 when \<^verbatim>\<open>pack\<close> or \<^verbatim>\<open>sendData\<close>
  raised.
\<close>

definition sendCommand :: "env \<Rightarrow> command \<Rightarrow> int comp" where
  "sendCommand E msg w =
     (if listen_mode (m_args w) \<or> \<not> m_TCP_connected w then ret 0 w
      else
        try_catch
          (bnd (lift (pack E msg)) (\<lambda>m_buf_send.
           bnd (sendData E m_buf_send) (\<lambda>sd.
             if sd > 0 then
               bnd (emit (Debug ''Send %d bytes for msg %s'')) (\<lambda>_.
               bnd (emit (LoggerWrite LOGGER_COMMANDS m_buf_send)) (\<lambda>_.
               bnd (dispatchAsDevDataBinary (buffer_of m_buf_send) (int (length m_buf_send))) (\<lambda>_.
               ret sd)))
             else ret sd)))
          (\<lambda>e. bnd (emit (Err e)) (\<lambda>_. ret 0)) w)"

section \<open>Time synchronisation\<close>

text \<open>
  \<^verbatim>\<open>setPioneerTime(uint32_t timeFromVehicleMsec)\<close>. The guard reads the clock only
  when the two flags let it (\<^verbatim>\<open>||\<close> is short-circuit); the clock is read again for
  \<^verbatim>\<open>time_sec\<close>, for the command's timestamp and for \<^verbatim>\<open>m_last_set_time\<close>, which is
  assigned only when \<^verbatim>\<open>sendCommand\<close> returned a positive count.
\<close>

definition setPioneerTime :: "env \<Rightarrow> 32 word \<Rightarrow> unit comp" where
  "setPioneerTime E timeFromVehicleMsec w =
     (if \<not> set_time_of_vehicle (m_args w) \<or> listen_mode (m_args w) then ret () w
      else
        bnd (getSinceEpoch E) (\<lambda>now w1.
          if now - m_last_set_time w1 < 5 then ret () w1
          else
            bnd (getSinceEpoch E) (\<lambda>time_sec.
              if \<bar>time_sec * 1000 - real (unat timeFromVehicleMsec)\<bar> > 1100 then
                bnd (getSinceEpoch E) (\<lambda>t.
                bnd (to_int32 t) (\<lambda>ts.
                bnd (emit (War ''Setting time for vehicle'')) (\<lambda>_.
                bnd (sendCommand E (SetSystemTime \<lparr>unix_timestamp = ts\<rparr>)) (\<lambda>sd.
                  if sd > 0 then
                    bnd (getSinceEpoch E) (\<lambda>t' w2. ret () (w2\<lparr>m_last_set_time := t'\<rparr>))
                  else ret ()))))
              else ret ()) w1) w)"

section \<open>Handlers\<close>

text \<open>
  Modelled from the spec: \<^verbatim>\<open>Angles::radians\<close> of the absent \<^verbatim>\<open>DUNE/Math/Angles.hpp\<close>
  converts an angle in degrees to radians.
\<close>

definition radians :: "real \<Rightarrow> real" where
  "radians a = a * (pi / 180)"

definition handlePioneerV2ReplyAck :: "ReplyVersion2Ack \<Rightarrow> unit comp" where
  "handlePioneerV2ReplyAck msg = ret ()"

definition handlePioneerV2ReplyPing :: "ReplyVersion2Ping \<Rightarrow> unit comp" where
  "handlePioneerV2ReplyPing msg = ret ()"

definition handlePioneerV2ReplyGetCamera :: "ReplyVersion2GetCameraParameters \<Rightarrow> unit comp" where
  "handlePioneerV2ReplyGetCamera msg = emit (Debug ''camera_bitrate %d'')"

definition handlePioneerV1Telemetry :: "DataVersion1Telemetry \<Rightarrow> unit comp" where
  "handlePioneerV1Telemetry msg = emit (Debug ''Voltage %u'')"

text \<open>
  \<^verbatim>\<open>handlePioneerV2Telemetry\<close>. The depth value is the quotient
  \<^verbatim>\<open>(fp32_t) msg.depth / 1000\<close>, computed in \<^verbatim>\<open>fp32_t\<close>: the field is converted,
  and the quotient is converted again. The message classes of IMC are not among the
  sources: there the member \<^verbatim>\<open>value\<close> of \<^verbatim>\<open>Depth\<close> and of \<^verbatim>\<open>Temperature\<close> and
  the members \<^verbatim>\<open>phi\<close>, \<^verbatim>\<open>theta\<close>, \<^verbatim>\<open>psi\<close> and \<^verbatim>\<open>depth\<close> of
  \<^verbatim>\<open>EstimatedState\<close> are \<^verbatim>\<open>fp32_t\<close>, so a \<^verbatim>\<open>double\<close> assigned to one of them is
  converted; the members of \<^verbatim>\<open>EulerAngles\<close> and \<^verbatim>\<open>lat\<close>, \<^verbatim>\<open>lon\<close> are
  \<^verbatim>\<open>fp64_t\<close>.
\<close>

definition handlePioneerV2Telemetry :: "env \<Rightarrow> DataVersion2Telemetry \<Rightarrow> unit comp" where
  "handlePioneerV2Telemetry E msg =
     bnd (emit (Debug ''Depth = %d'')) (\<lambda>_.
     bnd (dispatch (Depth (fp32 E (fp32 E (real_of_int (depth msg)) / 1000)))) (\<lambda>_.
     bnd (dispatch (EulerAngles (real_of_int (rt_clock msg)) (radians (roll msg))
            (radians (pitch msg)) (radians (yaw msg)) (radians (yaw msg)))) (\<lambda>_.
     bnd (dispatch (Temperature (fp32 E (real_of_int (temp_water msg) / 10)))) (\<lambda>_ w.
       if generate_estimate_state_from_telemetry (m_args w) then
         dispatch (EstimatedState (radians (4118478174 / 100000000))
           (radians (- 870657964 / 100000000)) (fp32 E (radians (roll msg)))
           (fp32 E (radians (pitch msg))) (fp32 E (radians (yaw msg)))
           (fp32 E (real_of_int (depth msg)))) w
       else ret () w))))"

definition handlePioneerV2CompassCalibration :: "DataVersion2Compasscalibration \<Rightarrow> unit comp" where
  "handlePioneerV2CompassCalibration msg = emit (Debug ''progress_thruster %u'')"

section \<open>The dispatch functions\<close>

text \<open>
  The pointer \<^verbatim>\<open>&buf[startIndex]\<close> handed to \<^verbatim>\<open>dispatchAsDevDataBinary\<close>.
\<close>

definition at_offset :: "buffer \<Rightarrow> int \<Rightarrow> buffer" where
  "at_offset buf startIndex = (\<lambda>i. buf (startIndex + i))"

text \<open>
  The \<^verbatim>\<open>try\<close> block of \<^verbatim>\<open>pioneerMessagesParse\<close>. The switch expression
  \<^verbatim>\<open>(buf[startIndex] << 8) + buf[startIndex + 1]\<close> reads two bytes before anything
  looks at \<open>length\<close>. Each recognised case unpacks and, when the count is positive,
  calls \<^verbatim>\<open>setPioneerTime\<close> (telemetry only), \<^verbatim>\<open>dispatchAsDevDataBinary\<close> and the
  handler, in this order. The default case leaves \<open>rb\<close> at 0.
\<close>

definition pioneerMessagesParse_try :: "env \<Rightarrow> buffer \<Rightarrow> int \<Rightarrow> int \<Rightarrow> int comp" where
  "pioneerMessagesParse_try E buf startIndex len =
     bnd (rd buf startIndex) (\<lambda>b0.
     bnd (rd buf (startIndex + 1)) (\<lambda>b1.
       let code = push_bit 8 (uint b0) + uint b1 in
       if code = PIONEER_MSG_VERSION_1_TELEMETRY_CODE E then
         bnd (lift (unpack_V1Telemetry E buf startIndex len)) (\<lambda>(rb, msgV1Telm).
           if rb > 0 then
             bnd (setPioneerTime E (v1_time msgV1Telm)) (\<lambda>_.
             bnd (dispatchAsDevDataBinary (at_offset buf startIndex) rb) (\<lambda>_.
             bnd (handlePioneerV1Telemetry msgV1Telm) (\<lambda>_.
             ret rb)))
           else ret rb)
       else if code = PIONEER_MSG_VERSION_2_TELEMETRY_CODE E then
         bnd (lift (unpack_V2Telemetry E buf startIndex len)) (\<lambda>(rb, msgV2Telm).
           if rb > 0 then
             bnd (setPioneerTime E (v2_time msgV2Telm)) (\<lambda>_.
             bnd (dispatchAsDevDataBinary (at_offset buf startIndex) rb) (\<lambda>_.
             bnd (handlePioneerV2Telemetry E msgV2Telm) (\<lambda>_.
             ret rb)))
           else ret rb)
       else if code = PIONEER_MSG_VERSION_2_COMPASS_CALIBRATION_CODE E then
         bnd (lift (unpack_V2Compasscalibration E buf startIndex len)) (\<lambda>(rb, msgV2CompassCal).
           if rb > 0 then
             bnd (dispatchAsDevDataBinary (at_offset buf startIndex) rb) (\<lambda>_.
             bnd (handlePioneerV2CompassCalibration msgV2CompassCal) (\<lambda>_.
             ret rb))
           else ret rb)
       else ret 0))"

text \<open>
  \<^verbatim>\<open>pioneerMessagesParse\<close>: the block above, with the handler
  \<^verbatim>\<open>catch(const std::exception& e) { err("%s", e.what()); return 0; }\<close>.
\<close>

definition pioneerMessagesParse :: "env \<Rightarrow> buffer \<Rightarrow> int \<Rightarrow> int \<Rightarrow> int comp" where
  "pioneerMessagesParse E buf startIndex len =
     try_catch (pioneerMessagesParse_try E buf startIndex len)
       (\<lambda>e. bnd (emit (Err e)) (\<lambda>_. ret 0))"

text \<open>
  The \<^verbatim>\<open>try\<close> block of \<^verbatim>\<open>pioneerCommandRepliesParse\<close>: the switch is on
  \<^verbatim>\<open>buf[startIndex]\<close>.
\<close>

definition pioneerCommandRepliesParse_try :: "env \<Rightarrow> buffer \<Rightarrow> int \<Rightarrow> int \<Rightarrow> int comp" where
  "pioneerCommandRepliesParse_try E buf startIndex len =
     bnd (rd buf startIndex) (\<lambda>b0.
       let code = uint b0 in
       if code = PIONEER_REPLY_VERSION_2_ACK E then
         bnd (lift (unpack_Ack E buf startIndex len)) (\<lambda>(rb, msgAck).
           if rb > 0 then
             bnd (dispatchAsDevDataBinary (at_offset buf startIndex) rb) (\<lambda>_.
             bnd (handlePioneerV2ReplyAck msgAck) (\<lambda>_.
             ret rb))
           else ret rb)
       else if code = PIONEER_REPLY_VERSION_2_PING E then
         bnd (lift (unpack_Ping E buf startIndex len)) (\<lambda>(rb, msgPing).
           if rb > 0 then
             bnd (dispatchAsDevDataBinary (at_offset buf startIndex) rb) (\<lambda>_.
             bnd (handlePioneerV2ReplyPing msgPing) (\<lambda>_.
             ret rb))
           else ret rb)
       else if code = PIONEER_REPLY_VERSION_2_GET_CAMERA E then
         bnd (lift (unpack_GetCamera E buf startIndex len)) (\<lambda>(rb, msgGetCamParams).
           if rb > 0 then
             bnd (dispatchAsDevDataBinary (at_offset buf startIndex) rb) (\<lambda>_.
             bnd (handlePioneerV2ReplyGetCamera msgGetCamParams) (\<lambda>_.
             ret rb))
           else ret rb)
       else ret 0)"

definition pioneerCommandRepliesParse :: "env \<Rightarrow> buffer \<Rightarrow> int \<Rightarrow> int \<Rightarrow> int comp" where
  "pioneerCommandRepliesParse E buf startIndex len =
     try_catch (pioneerCommandRepliesParse_try E buf startIndex len)
       (\<lambda>e. bnd (emit (Err e)) (\<lambda>_. ret 0))"

section \<open>The heartbeat consumer\<close>


section \<open>The connectionless channel's receive step\<close>

text \<open>
  Modelled from the spec: the handling of one datagram by \<^verbatim>\<open>UDPComm\<close> of the absent
  \<^verbatim>\<open>Comm.hpp\<close>. Each datagram is paired with its sender address; before dispatch, the
  injected acceptance predicate is evaluated with the sender address and port; if it
  returns false the datagram is dropped silently (not logged as an error, not
  dispatched). Otherwise the datagram is handed to the injected frame handler.
\<close>

definition udp_on_datagram ::
    "(Address \<Rightarrow> 16 word \<Rightarrow> bool) \<Rightarrow> (buffer \<Rightarrow> int \<Rightarrow> int \<Rightarrow> int comp) \<Rightarrow>
     Address \<Rightarrow> 16 word \<Rightarrow> buffer \<Rightarrow> int \<Rightarrow> unit comp" where
  "udp_on_datagram acceptance dataprocessor address port buf len w =
     (if acceptance address port then bnd (dataprocessor buf 0 len) (\<lambda>_. ret ()) w
      else ret () w)"

text \<open>
  The channel as \<^verbatim>\<open>onResourceAcquisition\<close> builds it: the predicate is
  \<^verbatim>\<open>udp_package_acceptance\<close> over the task's current arguments and the frame handler is
  \<^verbatim>\<open>pioneerMessagesParse\<close>.
\<close>

definition m_UDP_comm_on_datagram :: "env \<Rightarrow> Address \<Rightarrow> 16 word \<Rightarrow> buffer \<Rightarrow> int \<Rightarrow> unit comp" where
  "m_UDP_comm_on_datagram E address port buf len w =
     udp_on_datagram (udp_package_acceptance (m_args w)) (pioneerMessagesParse E)
       address port buf len w"

section \<open>Observations on traces\<close>

text \<open>What a run appended to the trace.\<close>

definition new_events :: "Task \<Rightarrow> Task \<Rightarrow> event list" where
  "new_events w w' = drop (length (trace w)) (trace w')"

primrec socket_writes :: "event list \<Rightarrow> byte list list" where
  "socket_writes [] = []"
| "socket_writes (ev # evs) =
     (case ev of SocketWrite bs \<Rightarrow> [bs] | _ \<Rightarrow> []) @ socket_writes evs"

primrec logger_writes :: "event list \<Rightarrow> (LoggerEnum \<times> byte list) list" where
  "logger_writes [] = []"
| "logger_writes (ev # evs) =
     (case ev of LoggerWrite l bs \<Rightarrow> [(l, bs)] | _ \<Rightarrow> []) @ logger_writes evs"

primrec published :: "event list \<Rightarrow> imc_message list" where
  "published [] = []"
| "published (ev # evs) = (case ev of Dispatch m \<Rightarrow> [m] | _ \<Rightarrow> []) @ published evs"

primrec echoes :: "event list \<Rightarrow> byte list list" where
  "echoes [] = []"
| "echoes (ev # evs) =
     (case ev of Dispatch (DevDataBinary bs) \<Rightarrow> [bs] | _ \<Rightarrow> []) @ echoes evs"

text \<open>A call returned normally with a positive count.\<close>

definition returned_positive :: "fault + int \<Rightarrow> bool" where
  "returned_positive r = (case r of Inl f \<Rightarrow> False | Inr n \<Rightarrow> 0 < n)"

section \<open>Conditions and outcomes used in the statements\<close>

text \<open>
  The count and the events of a \<open>sendCommand\<close> call as a function of the
  configuration and the connection state; lemma \<open>sendCommand_outcome\<close> proves that
  this is what \<open>sendCommand\<close> does.
\<close>

definition send_outcome :: "env \<Rightarrow> command \<Rightarrow> Arguments \<Rightarrow> bool \<Rightarrow> int \<times> event list" where
  "send_outcome E msg args conn =
     (if listen_mode args \<or> \<not> conn then (0, [])
      else
        (case pack E msg of
           Inl e \<Rightarrow> (0, [Err e])
         | Inr bs \<Rightarrow>
            (case socket_write E bs of
               Inl e \<Rightarrow> (0, [SocketWrite bs, Err e])
             | Inr sd \<Rightarrow>
                if sd > 0 then
                  (sd, [SocketWrite bs, Debug ''Send %d bytes for msg %s'',
                     LoggerWrite LOGGER_COMMANDS bs] @
                     (if log_pioneer_imc args
                      then [Dispatch (DevDataBinary (take (length bs mod 65536) bs))] else []))
                else (sd, [SocketWrite bs]))))"

text \<open>The clock reading fits the \<^verbatim>\<open>int32_t\<close> timestamp of the command.\<close>

definition representable_int32 :: "real \<Rightarrow> bool" where
  "representable_int32 x \<longleftrightarrow> - 2147483648 \<le> trunc x \<and> trunc x \<le> 2147483647"


text \<open>
  The four conditions of the time-sync policy for a frame with device clock
  \<open>deviceMillis\<close>: the time-set flag is on, listen-only mode is off, five seconds or
  more lie between the last recorded correction and the first clock reading, and the
  second clock reading, in milliseconds, differs from the device clock by more than
  1100.
\<close>

definition time_sync_due :: "env \<Rightarrow> 32 word \<Rightarrow> Task \<Rightarrow> bool" where
  "time_sync_due E deviceMillis w \<longleftrightarrow>
     set_time_of_vehicle (m_args w) \<and> \<not> listen_mode (m_args w) \<and>
     5 \<le> clock E (clock_reads w) - m_last_set_time w \<and>
     \<bar>clock E (Suc (clock_reads w)) * 1000 - real (unat deviceMillis)\<bar> > 1100"

text \<open>
  What every computation of the task respects: the arguments and the connection state
  are left alone, the trace is only extended, and without the structured-echo flag
  nothing is dispatched as \<open>DevDataBinary\<close>.
\<close>

definition orderly :: "'a comp \<Rightarrow> bool" where
  "orderly m \<longleftrightarrow>
     (\<forall>w. m_args (snd (m w)) = m_args w \<and> m_TCP_connected (snd (m w)) = m_TCP_connected w \<and>
          (\<exists>new. trace (snd (m w)) = trace w @ new \<and>
                 (\<not> log_pioneer_imc (m_args w) \<longrightarrow> echoes new = [])))"

text \<open>A computation that reads no byte of the receive buffer.\<close>

definition keeps_reads :: "'a comp \<Rightarrow> bool" where
  "keeps_reads m \<longleftrightarrow> (\<forall>w. reads (snd (m w)) = reads w)"

text \<open>
  The bytes of a decoded frame as \<^verbatim>\<open>dispatchAsDevDataBinary(&buf[startIndex], rb)\<close>
  copies them, and the events of that call.
\<close>

definition frame_bytes :: "buffer \<Rightarrow> int \<Rightarrow> int \<Rightarrow> byte list" where
  "frame_bytes buf startIndex rb = map (\<lambda>k. buf (startIndex + int k)) [0..<nat (rb mod 65536)]"

definition mirror_events :: "Arguments \<Rightarrow> buffer \<Rightarrow> int \<Rightarrow> int \<Rightarrow> event list" where
  "mirror_events args buf startIndex rb =
     (if log_pioneer_imc args then [Dispatch (DevDataBinary (frame_bytes buf startIndex rb))]
      else [])"

text \<open>The switch expressions of the two dispatch functions.\<close>

definition telemetry_code :: "buffer \<Rightarrow> int \<Rightarrow> int" where
  "telemetry_code buf startIndex =
     push_bit 8 (uint (buf startIndex)) + uint (buf (startIndex + 1))"

definition reply_code :: "buffer \<Rightarrow> int \<Rightarrow> int" where
  "reply_code buf startIndex = uint (buf startIndex)"

text \<open>The case labels of one \<^verbatim>\<open>switch\<close> are distinct.\<close>

definition distinct_codes :: "env \<Rightarrow> bool" where
  "distinct_codes E \<longleftrightarrow>
     distinct [PIONEER_MSG_VERSION_1_TELEMETRY_CODE E, PIONEER_MSG_VERSION_2_TELEMETRY_CODE E,
       PIONEER_MSG_VERSION_2_COMPASS_CALIBRATION_CODE E] \<and>
     distinct [PIONEER_REPLY_VERSION_2_ACK E, PIONEER_REPLY_VERSION_2_PING E,
       PIONEER_REPLY_VERSION_2_GET_CAMERA E]"

section \<open>Conversion to single precision\<close>

text \<open>
  IEEE-754 binary32 with round-to-nearest, ties to even, for magnitudes in the normal
  range: the magnitude is scaled by powers of two until it lies in
  \<open>[2 ^ 23, 2 ^ 24)\<close>, rounded to an integer and scaled back. The scaling takes at most
  149 steps in the normal range.
\<close>

definition round_half_even :: "real \<Rightarrow> int" where
  "round_half_even a =
     (if a - of_int \<lfloor>a\<rfloor> < 1 / 2 then \<lfloor>a\<rfloor>
      else if 1 / 2 < a - of_int \<lfloor>a\<rfloor> then \<lfloor>a\<rfloor> + 1
      else if even \<lfloor>a\<rfloor> then \<lfloor>a\<rfloor> else \<lfloor>a\<rfloor> + 1)"

fun scale_round :: "nat \<Rightarrow> real \<Rightarrow> real" where
  "scale_round 0 a = of_int (round_half_even a)"
| "scale_round (Suc n) a =
     (if 16777216 \<le> a then 2 * scale_round n (a / 2)
      else if a < 8388608 then scale_round n (2 * a) / 2
      else of_int (round_half_even a))"

definition binary32 :: "real \<Rightarrow> real" where
  "binary32 x = (if x = 0 then 0 else sgn x * scale_round 150 \<bar>x\<bar>)"

section \<open>A sample configuration\<close>

text \<open>
  The arguments are the defaults the constructor registers. The type codes, the codec
  and the socket of \<open>sample_env\<close> are sample values for the parameters: two-byte
  telemetry frames and one-byte replies that carry only their code, commands packed as
  a version byte and a letter (for the watchdog its other members, followed by its
  duration, high byte first), a socket that accepts every byte, a clock that advances
  by half a second per reading, and \<open>binary32\<close> as the conversion to \<^verbatim>\<open>fp32_t\<close>.
\<close>

definition sample_args :: Arguments where
  "sample_args =
     \<lparr>comm_timeout = 10, listen_mode = False, filter_udp_to_tcp_address = False,
      generate_estimate_state_from_telemetry = False, TCP_port = 2011,
      TCP_addr = 2130706433, UDP_listen_port = 2010, log_pioneer_raw = True,
      log_pioneer_imc = False, set_time_of_vehicle = True\<rparr>"

definition sample_task :: Task where
  "sample_task =
     \<lparr>m_args = sample_args, m_TCP_connected = True, m_start_time = 1000,
      m_last_set_time = 0,
      m_watchdog_msg = \<lparr>other_members = [1, 119], connection_duration = 0\<rparr>,
      clock_reads = 0, reads = [], trace = []\<rparr>"

definition sample_v2 :: DataVersion2Telemetry where
  "sample_v2 =
     \<lparr>v2_time = 5000, rt_clock = 7, roll = 90, pitch = 0, yaw = 180, depth = 1500,
      temp_water = 215\<rparr>"

definition sample_pack :: "command \<Rightarrow> string + byte list" where
  "sample_pack c =
     (case c of
        Watchdog m \<Rightarrow>
          Inr (other_members m @
            [ucast (drop_bit 8 (connection_duration m)), ucast (connection_duration m)])
      | SetSystemTime m \<Rightarrow> Inr [2, 115]
      | UserGeoLocation m \<Rightarrow> Inr [1, 103])"

definition sample_env :: env where
  "sample_env =
     \<lparr>PIONEER_MSG_VERSION_1_TELEMETRY_CODE = 257,
      PIONEER_MSG_VERSION_2_TELEMETRY_CODE = 513,
      PIONEER_MSG_VERSION_2_COMPASS_CALIBRATION_CODE = 514,
      PIONEER_REPLY_VERSION_2_ACK = 97,
      PIONEER_REPLY_VERSION_2_PING = 112,
      PIONEER_REPLY_VERSION_2_GET_CAMERA = 67,
      unpack_V1Telemetry = (\<lambda>buf startIndex len.
        if len < 2 then Inr (0, \<lparr>v1_time = 0, battery_voltage = 0\<rparr>)
        else Inr (2, \<lparr>v1_time = 5000, battery_voltage = 12\<rparr>)),
      unpack_V2Telemetry = (\<lambda>buf startIndex len.
        if len < 2 then Inr (0, sample_v2) else Inr (2, sample_v2)),
      unpack_V2Compasscalibration = (\<lambda>buf startIndex len.
        if len < 2 then Inr (0, \<lparr>progress_thruster = 0\<rparr>)
        else Inr (2, \<lparr>progress_thruster = 50\<rparr>)),
      unpack_Ack = (\<lambda>buf startIndex len.
        if len < 1 then Inr (0, \<lparr>ack_payload = []\<rparr>) else Inr (1, \<lparr>ack_payload = []\<rparr>)),
      unpack_Ping = (\<lambda>buf startIndex len.
        if len < 1 then Inr (0, \<lparr>ping_payload = []\<rparr>) else Inr (1, \<lparr>ping_payload = []\<rparr>)),
      unpack_GetCamera = (\<lambda>buf startIndex len.
        if len < 1 then Inr (0, \<lparr>camera_bitrate = 0\<rparr>)
        else Inr (1, \<lparr>camera_bitrate = 8000\<rparr>)),
      pack = sample_pack,
      socket_write = (\<lambda>bs. Inr (int (length bs))),
      clock = (\<lambda>n. 2000 + real n / 2),
      getSystemId = 30,
      fp32 = binary32\<rparr>"

section \<open>Basic facts\<close>

lemmas run_defs = setPioneerTime_def sendCommand_def sendData_def try_catch_def bnd_def ret_def
  lift_def raise_def emit_def dispatch_def dispatchAsDevDataBinary_def getSinceEpoch_def
  to_int32_def to_int16_def trunc_def rd_def buffer_of_def at_offset_def

lemmas sample_defs = sample_env_def sample_task_def sample_args_def sample_pack_def sample_v2_def

lemma scale_round_unfold:
  "0 < n \<Longrightarrow> scale_round n a =
     (if 16777216 \<le> a then 2 * scale_round (n - 1) (a / 2)
      else if a < 8388608 then scale_round (n - 1) (2 * a) / 2
      else of_int (round_half_even a))"
  by (cases n) simp_all

lemma round_half_even_of_int [simp]: "round_half_even (of_int k) = k"
  by (simp add: round_half_even_def)

text \<open>An integer of magnitude below \<open>2 ^ 24\<close> is its own single-precision value.\<close>

lemma scale_round_of_int:
  "0 \<le> k \<Longrightarrow> k < 16777216 \<Longrightarrow> scale_round n (of_int k) = of_int k"
proof (induction n arbitrary: k)
  case 0
  then show ?case by simp
next
  case (Suc n)
  show ?case
  proof (cases "k < 8388608")
    case True
    have "scale_round n (2 * real_of_int k) = scale_round n (of_int (2 * k))"
      by simp
    also have "\<dots> = of_int (2 * k)"
      using Suc.prems True by (intro Suc.IH) simp_all
    finally show ?thesis
      using Suc.prems True by simp
  next
    case False
    with Suc.prems show ?thesis by simp
  qed
qed

lemma binary32_of_int:
  assumes "\<bar>k\<bar> < 16777216"
  shows "binary32 (of_int k) = of_int k"
proof (cases "0 \<le> k")
  case True
  with assms have "scale_round 150 (of_int k) = of_int k"
    by (intro scale_round_of_int) simp_all
  with True show ?thesis
    by (simp add: binary32_def sgn_if)
next
  case False
  with assms have "scale_round 150 (of_int (- k)) = of_int (- k)"
    by (intro scale_round_of_int) simp_all
  with False show ?thesis
    by (simp add: binary32_def sgn_if)
qed

text \<open>Values of the conversion at the sample record and at a raw depth of 1.\<close>

lemma binary32_samples:
  "binary32 1500 = 1500" "binary32 (3 / 2) = 3 / 2" "binary32 (43 / 2) = 43 / 2"
  "binary32 0 = 0" "binary32 1 = 1" "binary32 (1 / 1000) = 8589935 / 8589934592"
  by (simp_all add: binary32_def scale_round_unfold round_half_even_def)

lemma new_events_append [simp]: "new_events w (w'\<lparr>trace := trace w @ new\<rparr>) = new"
  by (simp add: new_events_def)

lemma new_events_same [simp]: "new_events w w = []"
  by (simp add: new_events_def)

lemma buffer_of_take: "n \<le> length bs \<Longrightarrow> map (\<lambda>k. buffer_of bs (int k)) [0..<n] = take n bs"
  by (rule nth_equalityI) (simp_all add: buffer_of_def)

section \<open>Properties of \<open>sendCommand\<close>\<close>

lemma sendCommand_suppressed:
  "listen_mode (m_args w) \<or> \<not> m_TCP_connected w \<Longrightarrow> sendCommand E msg w = (Inr 0, w)"
  by (simp add: sendCommand_def ret_def)

text \<open>The outcomes of a call that passes the guard, by what the codec and the socket do.\<close>

lemma sendCommand_cases:
  assumes "\<not> listen_mode (m_args w)" "m_TCP_connected w"
  shows "sendCommand E msg w =
    (case pack E msg of
       Inl e \<Rightarrow> (Inr 0, w\<lparr>trace := trace w @ [Err e]\<rparr>)
     | Inr bs \<Rightarrow>
        (case socket_write E bs of
           Inl e \<Rightarrow> (Inr 0, w\<lparr>trace := trace w @ [SocketWrite bs, Err e]\<rparr>)
         | Inr sd \<Rightarrow>
            if sd > 0 then
              (Inr sd, w\<lparr>trace := trace w @ [SocketWrite bs, Debug ''Send %d bytes for msg %s'',
                 LoggerWrite LOGGER_COMMANDS bs] @
                 (if log_pioneer_imc (m_args w)
                  then [Dispatch (DevDataBinary (take (length bs mod 65536) bs))] else [])\<rparr>)
            else (Inr sd, w\<lparr>trace := trace w @ [SocketWrite bs]\<rparr>)))"
  using assms
  by (simp add: sendCommand_def sendData_def try_catch_def bnd_def ret_def lift_def raise_def
      emit_def dispatchAsDevDataBinary_def dispatch_def buffer_of_take nat_mod_distrib
      split: sum.splits)

lemma sendCommand_outcome:
  "sendCommand E msg w =
     (Inr (fst (send_outcome E msg (m_args w) (m_TCP_connected w))),
      w\<lparr>trace := trace w @ snd (send_outcome E msg (m_args w) (m_TCP_connected w))\<rparr>)"
proof (cases "listen_mode (m_args w) \<or> \<not> m_TCP_connected w")
  case True
  then show ?thesis by (simp add: sendCommand_suppressed send_outcome_def)
next
  case False
  then show ?thesis
    by (simp add: sendCommand_cases send_outcome_def split: sum.splits)
qed

text \<open>
  C3. For every command, \<open>sendCommand\<close> returns 0 and leaves the task as it was (no
  socket write, no logger write, no echo, no event at all) when listen-only mode is set
  or the TCP channel is not connected. Otherwise it extends the trace; when \<open>pack\<close>
  raises, it logs the error and returns 0; when \<open>pack\<close> yields bytes, exactly these
  bytes are written to the socket once, the value returned is the count the socket
  reports (0 when the write raises), the outbound command logger receives the bytes
  exactly when the returned count is positive, and the structured echo receives them
  exactly when the returned count is positive and the echo is configured. The echo's
  length parameter is 16 bits wide, so the echo holds the leading
  \<open>length mod 65536\<close> bytes, which is all of them for every length below 65536.
\<close>

theorem sendCommand_contract:
  "(listen_mode (m_args w) \<or> \<not> m_TCP_connected w \<longrightarrow> sendCommand E msg w = (Inr 0, w)) \<and>
   (\<not> listen_mode (m_args w) \<and> m_TCP_connected w \<longrightarrow>
      trace (snd (sendCommand E msg w)) = trace w @ new_events w (snd (sendCommand E msg w)) \<and>
      (case pack E msg of
         Inl e \<Rightarrow>
           fst (sendCommand E msg w) = Inr 0 \<and>
           new_events w (snd (sendCommand E msg w)) = [Err e]
       | Inr bs \<Rightarrow>
           socket_writes (new_events w (snd (sendCommand E msg w))) = [bs] \<and>
           fst (sendCommand E msg w) =
             Inr (case socket_write E bs of Inl e \<Rightarrow> 0 | Inr sd \<Rightarrow> sd) \<and>
           logger_writes (new_events w (snd (sendCommand E msg w))) =
             (if returned_positive (fst (sendCommand E msg w)) then [(LOGGER_COMMANDS, bs)] else []) \<and>
           echoes (new_events w (snd (sendCommand E msg w))) =
             (if returned_positive (fst (sendCommand E msg w)) \<and> log_pioneer_imc (m_args w)
              then [take (length bs mod 65536) bs] else [])))"
proof (intro conjI impI)
  assume "listen_mode (m_args w) \<or> \<not> m_TCP_connected w"
  then show "sendCommand E msg w = (Inr 0, w)" by (rule sendCommand_suppressed)
next
  assume a: "\<not> listen_mode (m_args w) \<and> m_TCP_connected w"
  then show "trace (snd (sendCommand E msg w)) = trace w @ new_events w (snd (sendCommand E msg w))"
    by (simp add: sendCommand_cases split: sum.splits)
next
  assume a: "\<not> listen_mode (m_args w) \<and> m_TCP_connected w"
  then show "case pack E msg of
         Inl e \<Rightarrow>
           fst (sendCommand E msg w) = Inr 0 \<and>
           new_events w (snd (sendCommand E msg w)) = [Err e]
       | Inr bs \<Rightarrow>
           socket_writes (new_events w (snd (sendCommand E msg w))) = [bs] \<and>
           fst (sendCommand E msg w) =
             Inr (case socket_write E bs of Inl e \<Rightarrow> 0 | Inr sd \<Rightarrow> sd) \<and>
           logger_writes (new_events w (snd (sendCommand E msg w))) =
             (if returned_positive (fst (sendCommand E msg w)) then [(LOGGER_COMMANDS, bs)] else []) \<and>
           echoes (new_events w (snd (sendCommand E msg w))) =
             (if returned_positive (fst (sendCommand E msg w)) \<and> log_pioneer_imc (m_args w)
              then [take (length bs mod 65536) bs] else [])"
    by (simp add: sendCommand_cases returned_positive_def split: sum.splits)
qed

text \<open>
  The contract at the sample configuration: disconnected, a watchdog command changes
  nothing and returns 0; connected, its four bytes are written to the socket, the count
  4 is returned and the command logger receives the bytes.
\<close>

theorem sendCommand_contract_witness:
  "sendCommand sample_env (Watchdog \<lparr>other_members = [1, 119], connection_duration = 5\<rparr>)
       (sample_task\<lparr>m_TCP_connected := False\<rparr>) =
     (Inr 0, sample_task\<lparr>m_TCP_connected := False\<rparr>) \<and>
   socket_writes (new_events sample_task
       (snd (sendCommand sample_env (Watchdog \<lparr>other_members = [1, 119], connection_duration = 5\<rparr>) sample_task))) =
     [1, 119, 0, 5] # [] \<and>
   fst (sendCommand sample_env (Watchdog \<lparr>other_members = [1, 119], connection_duration = 5\<rparr>) sample_task) = Inr 4 \<and>
   logger_writes (new_events sample_task
       (snd (sendCommand sample_env (Watchdog \<lparr>other_members = [1, 119], connection_duration = 5\<rparr>) sample_task))) =
     [(LOGGER_COMMANDS, [1, 119, 0, 5])]"
  using sendCommand_contract [of "sample_task\<lparr>m_TCP_connected := False\<rparr>" sample_env
      "Watchdog \<lparr>other_members = [1, 119], connection_duration = 5\<rparr>"]
    sendCommand_contract [of sample_task sample_env "Watchdog \<lparr>other_members = [1, 119], connection_duration = 5\<rparr>"]
  by (simp add: sample_task_def sample_args_def sample_env_def sample_pack_def
      returned_positive_def)

section \<open>Sender filtering on the connectionless channel\<close>

text \<open>
  C5. With the filter flag off the acceptance predicate holds for every sender address
  and port; with the flag on it holds exactly when the sender address equals the
  configured TCP address; and a datagram the predicate rejects is dropped by the
  channel's receive step whatever the frame handler is: the task, with its trace and
  its record of buffer reads, stays as it was.
\<close>

theorem udp_package_acceptance_filter:
  "(\<not> filter_udp_to_tcp_address args \<longrightarrow> udp_package_acceptance args address port) \<and>
   (filter_udp_to_tcp_address args \<longrightarrow>
      (udp_package_acceptance args address port \<longleftrightarrow> TCP_addr args = address)) \<and>
   (\<not> udp_package_acceptance args address port \<longrightarrow>
      udp_on_datagram (udp_package_acceptance args) dataprocessor address port buf len w =
        (Inr (), w))"
  by (simp add: udp_package_acceptance_def udp_on_datagram_def ret_def)

text \<open>
  At the sample configuration: without the filter a foreign sender is accepted; with
  the filter it is rejected, the configured address is accepted, and the foreign
  datagram leaves the task untouched.
\<close>

theorem udp_package_acceptance_filter_witness:
  "udp_package_acceptance sample_args 3232235777 2010 \<and>
   \<not> udp_package_acceptance (sample_args\<lparr>filter_udp_to_tcp_address := True\<rparr>) 3232235777 2010 \<and>
   udp_package_acceptance (sample_args\<lparr>filter_udp_to_tcp_address := True\<rparr>) 2130706433 2010 \<and>
   m_UDP_comm_on_datagram sample_env 3232235777 2010 (buffer_of [2, 1]) 2
       (sample_task\<lparr>m_args := sample_args\<lparr>filter_udp_to_tcp_address := True\<rparr>\<rparr>) =
     (Inr (), sample_task\<lparr>m_args := sample_args\<lparr>filter_udp_to_tcp_address := True\<rparr>\<rparr>)"
  using udp_package_acceptance_filter [of sample_args 3232235777 2010]
    udp_package_acceptance_filter [of "sample_args\<lparr>filter_udp_to_tcp_address := True\<rparr>"
      3232235777 2010 "pioneerMessagesParse sample_env" "buffer_of [2, 1]" 2
      "sample_task\<lparr>m_args := sample_args\<lparr>filter_udp_to_tcp_address := True\<rparr>\<rparr>"]
    udp_package_acceptance_filter [of "sample_args\<lparr>filter_udp_to_tcp_address := True\<rparr>"
      2130706433 2010]
  by (simp add: sample_args_def sample_task_def m_UDP_comm_on_datagram_def)

section \<open>Properties of \<open>setPioneerTime\<close>\<close>

lemma setPioneerTime_not_due:
  assumes "\<not> time_sync_due E dev w"
  shows "setPioneerTime E dev w =
    (Inr (), w\<lparr>clock_reads := clock_reads w +
       (if \<not> set_time_of_vehicle (m_args w) \<or> listen_mode (m_args w) then 0
        else if clock E (clock_reads w) - m_last_set_time w < 5 then 1 else 2)\<rparr>)"
  using assms
  by (auto simp add: setPioneerTime_def time_sync_due_def bnd_def ret_def getSinceEpoch_def
      not_less not_le)

lemma setPioneerTime_due:
  assumes "time_sync_due E dev w" and "representable_int32 (clock E (clock_reads w + 2))"
  shows "setPioneerTime E dev w =
    (let cmd = SetSystemTime \<lparr>unix_timestamp = word_of_int (trunc (clock E (clock_reads w + 2)))\<rparr>;
         out = send_outcome E cmd (m_args w) (m_TCP_connected w);
         w4 = w\<lparr>trace := trace w @ War ''Setting time for vehicle'' # snd out\<rparr>
     in if 0 < fst out
        then (Inr (), w4\<lparr>clock_reads := clock_reads w + 4,
                          m_last_set_time := clock E (clock_reads w + 3)\<rparr>)
        else (Inr (), w4\<lparr>clock_reads := clock_reads w + 3\<rparr>))"
  using assms
  by (simp add: setPioneerTime_def time_sync_due_def representable_int32_def bnd_def ret_def
      getSinceEpoch_def to_int32_def emit_def sendCommand_outcome Let_def not_less
      eval_nat_numeral)

lemma setPioneerTime_undefined:
  assumes "time_sync_due E dev w" and "\<not> representable_int32 (clock E (clock_reads w + 2))"
  shows "setPioneerTime E dev w = (Inl Undefined, w\<lparr>clock_reads := clock_reads w + 3\<rparr>)"
  using assms
  by (simp add: setPioneerTime_def time_sync_due_def representable_int32_def bnd_def ret_def
      getSinceEpoch_def to_int32_def emit_def sendCommand_outcome Let_def not_less
      eval_nat_numeral)

section \<open>What every computation of the task respects\<close>

lemma echoes_append [simp]: "echoes (xs @ ys) = echoes xs @ echoes ys"
  by (induction xs) simp_all

lemma orderlyI:
  assumes "\<And>w. m_args (snd (m w)) = m_args w"
    and "\<And>w. m_TCP_connected (snd (m w)) = m_TCP_connected w"
    and "\<And>w. \<exists>new. trace (snd (m w)) = trace w @ new \<and>
                 (\<not> log_pioneer_imc (m_args w) \<longrightarrow> echoes new = [])"
  shows "orderly m"
  using assms by (simp add: orderly_def)

lemma orderly_ret [simp]: "orderly (ret x)"
  by (simp add: orderly_def ret_def)

lemma orderly_raise [simp]: "orderly (raise e)"
  by (simp add: orderly_def raise_def)

lemma orderly_lift [simp]: "orderly (lift r)"
  by (cases r) (simp_all add: lift_def)

lemma orderly_rd [simp]: "orderly (rd buf i)"
  by (simp add: orderly_def rd_def)

lemma orderly_getSinceEpoch [simp]: "orderly (getSinceEpoch E)"
  by (simp add: orderly_def getSinceEpoch_def)

lemma orderly_to_int32 [simp]: "orderly (to_int32 x)"
  by (simp add: orderly_def to_int32_def)

lemma orderly_to_int16 [simp]: "orderly (to_int16 x)"
  by (simp add: orderly_def to_int16_def)

lemma orderly_emit: "(\<And>bs. ev \<noteq> Dispatch (DevDataBinary bs)) \<Longrightarrow> orderly (emit ev)"
  by (cases ev) (auto simp add: orderly_def emit_def split: imc_message.splits)

lemma orderly_bnd:
  assumes "orderly m" and "\<And>x. orderly (f x)"
  shows "orderly (bnd m f)"
  unfolding orderly_def
proof (intro allI)
  fix w
  obtain r w1 where mw: "m w = (r, w1)" by (cases "m w")
  from assms(1) mw obtain n1 where 1: "m_args w1 = m_args w" "m_TCP_connected w1 = m_TCP_connected w"
      "trace w1 = trace w @ n1" "\<not> log_pioneer_imc (m_args w) \<longrightarrow> echoes n1 = []"
    unfolding orderly_def by (metis snd_conv)
  show "m_args (snd (bnd m f w)) = m_args w \<and>
        m_TCP_connected (snd (bnd m f w)) = m_TCP_connected w \<and>
        (\<exists>new. trace (snd (bnd m f w)) = trace w @ new \<and>
               (\<not> log_pioneer_imc (m_args w) \<longrightarrow> echoes new = []))"
  proof (cases r)
    case (Inl e)
    with mw 1 show ?thesis by (simp add: bnd_def)
  next
    case (Inr x)
    from assms(2) [of x] obtain n2 where 2: "m_args (snd (f x w1)) = m_args w1"
        "m_TCP_connected (snd (f x w1)) = m_TCP_connected w1"
        "trace (snd (f x w1)) = trace w1 @ n2" "\<not> log_pioneer_imc (m_args w1) \<longrightarrow> echoes n2 = []"
      unfolding orderly_def by metis
    have "trace (snd (f x w1)) = trace w @ (n1 @ n2)"
      using 1 2 by simp
    moreover have "\<not> log_pioneer_imc (m_args w) \<longrightarrow> echoes (n1 @ n2) = []"
      using 1 2 by simp
    ultimately show ?thesis
      using mw Inr 1 2 by (auto simp add: bnd_def)
  qed
qed

lemma orderly_try_catch:
  assumes "orderly m" and "\<And>e. orderly (h e)"
  shows "orderly (try_catch m h)"
  unfolding orderly_def
proof (intro allI)
  fix w
  obtain r w1 where mw: "m w = (r, w1)" by (cases "m w")
  from assms(1) mw obtain n1 where 1: "m_args w1 = m_args w" "m_TCP_connected w1 = m_TCP_connected w"
      "trace w1 = trace w @ n1" "\<not> log_pioneer_imc (m_args w) \<longrightarrow> echoes n1 = []"
    unfolding orderly_def by (metis snd_conv)
  show "m_args (snd (try_catch m h w)) = m_args w \<and>
        m_TCP_connected (snd (try_catch m h w)) = m_TCP_connected w \<and>
        (\<exists>new. trace (snd (try_catch m h w)) = trace w @ new \<and>
               (\<not> log_pioneer_imc (m_args w) \<longrightarrow> echoes new = []))"
  proof (cases "\<exists>e. r = Inl (Raise e)")
    case False
    with mw 1 show ?thesis
      by (auto simp add: try_catch_def split: sum.splits fault.splits)
  next
    case True
    then obtain e where r: "r = Inl (Raise e)" by blast
    from assms(2) [of e] obtain n2 where 2: "m_args (snd (h e w1)) = m_args w1"
        "m_TCP_connected (snd (h e w1)) = m_TCP_connected w1"
        "trace (snd (h e w1)) = trace w1 @ n2" "\<not> log_pioneer_imc (m_args w1) \<longrightarrow> echoes n2 = []"
      unfolding orderly_def by metis
    have "trace (snd (h e w1)) = trace w @ (n1 @ n2)"
      using 1 2 by simp
    moreover have "\<not> log_pioneer_imc (m_args w) \<longrightarrow> echoes (n1 @ n2) = []"
      using 1 2 by simp
    ultimately show ?thesis
      using mw r 1 2 by (auto simp add: try_catch_def)
  qed
qed

lemma orderly_cond:
  assumes "orderly m" and "orderly n"
  shows "orderly (\<lambda>w. if P w then m w else n w)"
  using assms unfolding orderly_def by simp

lemma orderly_dispatchAsDevDataBinary [simp]: "orderly (dispatchAsDevDataBinary buf len)"
  by (simp add: orderly_def dispatchAsDevDataBinary_def ret_def dispatch_def emit_def)

lemma orderly_sendCommand [simp]: "orderly (sendCommand E msg)"
  by (auto simp add: orderly_def sendCommand_outcome send_outcome_def split: sum.splits)

lemma orderly_if:
  assumes "c \<Longrightarrow> orderly m" and "\<not> c \<Longrightarrow> orderly n"
  shows "orderly (if c then m else n)"
  using assms by simp

lemma orderly_setPioneerTime [simp]: "orderly (setPioneerTime E dev)"
  unfolding orderly_def
proof (intro allI)
  fix w
  let ?goal = "m_args (snd (setPioneerTime E dev w)) = m_args w \<and>
       m_TCP_connected (snd (setPioneerTime E dev w)) = m_TCP_connected w \<and>
       (\<exists>new. trace (snd (setPioneerTime E dev w)) = trace w @ new \<and>
              (\<not> log_pioneer_imc (m_args w) \<longrightarrow> echoes new = []))"
  consider (idle) "\<not> time_sync_due E dev w"
    | (fire) "time_sync_due E dev w" "representable_int32 (clock E (clock_reads w + 2))"
    | (undef) "time_sync_due E dev w" "\<not> representable_int32 (clock E (clock_reads w + 2))"
    by blast
  then show ?goal
  proof cases
    case idle
    then show ?thesis by (simp add: setPioneerTime_not_due)
  next
    case fire
    then show ?thesis
      by (auto simp add: setPioneerTime_due Let_def send_outcome_def split: sum.splits)
  next
    case undef
    then show ?thesis by (simp add: setPioneerTime_undefined)
  qed
qed

lemma orderly_handlers [simp]:
  "orderly (handlePioneerV2ReplyAck a)" "orderly (handlePioneerV2ReplyPing p)"
  "orderly (handlePioneerV2ReplyGetCamera c)" "orderly (handlePioneerV1Telemetry t1)"
  "orderly (handlePioneerV2CompassCalibration cc)"
  by (simp_all add: handlePioneerV2ReplyAck_def handlePioneerV2ReplyPing_def
      handlePioneerV2ReplyGetCamera_def handlePioneerV1Telemetry_def
      handlePioneerV2CompassCalibration_def orderly_emit)

lemma orderly_handlePioneerV2Telemetry [simp]: "orderly (handlePioneerV2Telemetry E msg)"
  by (simp add: orderly_def handlePioneerV2Telemetry_def bnd_def dispatch_def emit_def ret_def)

lemma orderly_pioneerMessagesParse_try: "orderly (pioneerMessagesParse_try E buf startIndex len)"
  unfolding pioneerMessagesParse_try_def Let_def
  by (intro orderly_bnd orderly_if orderly_rd orderly_lift orderly_ret)
    (auto intro!: orderly_bnd orderly_if)

lemma orderly_pioneerCommandRepliesParse_try:
  "orderly (pioneerCommandRepliesParse_try E buf startIndex len)"
  unfolding pioneerCommandRepliesParse_try_def Let_def
  by (intro orderly_bnd orderly_if orderly_rd orderly_lift orderly_ret)
    (auto intro!: orderly_bnd orderly_if)

lemma orderly_catch_handler: "orderly (bnd (emit (Err e)) (\<lambda>_. ret (0::int)))"
  by (intro orderly_bnd orderly_emit) simp_all

lemma orderly_pioneerMessagesParse: "orderly (pioneerMessagesParse E buf startIndex len)"
  unfolding pioneerMessagesParse_def
  by (intro orderly_try_catch orderly_pioneerMessagesParse_try orderly_catch_handler)

lemma orderly_pioneerCommandRepliesParse: "orderly (pioneerCommandRepliesParse E buf startIndex len)"
  unfolding pioneerCommandRepliesParse_def
  by (intro orderly_try_catch orderly_pioneerCommandRepliesParse_try orderly_catch_handler)

lemma try_catch_no_raise:
  assumes "\<And>e w. \<exists>x w'. h e w = (Inr x, w')"
  shows "fst (try_catch m h w) \<noteq> Inl (Raise e')"
proof (cases "m w")
  case (Pair r w1)
  show ?thesis
  proof (cases r)
    case (Inl f)
    show ?thesis
    proof (cases f)
      case (Raise e)
      from assms [of e w1] obtain x w' where "h e w1 = (Inr x, w')" by blast
      with Pair Inl Raise show ?thesis by (simp add: try_catch_def)
    next
      case Undefined
      with Pair Inl show ?thesis by (simp add: try_catch_def)
    qed
  next
    case (Inr x)
    with Pair show ?thesis by (simp add: try_catch_def)
  qed
qed

section \<open>The time-sync policy\<close>

lemma send_outcome_socket_writes:
  "socket_writes (snd (send_outcome E cmd args conn)) =
     (if \<not> listen_mode args \<and> conn then (case pack E cmd of Inl e \<Rightarrow> [] | Inr bs \<Rightarrow> [bs]) else [])"
  by (simp add: send_outcome_def split: sum.splits)

lemma send_outcome_positive:
  "0 < fst (send_outcome E cmd args conn) \<Longrightarrow>
     \<not> listen_mode args \<and> conn \<and> (\<exists>bs. pack E cmd = Inr bs)"
  by (auto simp add: send_outcome_def split: sum.splits if_splits)

lemma new_events_trans [simp]:
  "new_events w (w'\<lparr>trace := trace w @ new, clock_reads := k\<rparr>) = new"
  "new_events w (w'\<lparr>trace := trace w @ new, clock_reads := k, m_last_set_time := l\<rparr>) = new"
  by (simp_all add: new_events_def)

text \<open>
  C2, as the code has it. Provided the third clock reading fits the command's
  \<^verbatim>\<open>int32_t\<close> timestamp: the policy logs its warning and hands a set-system-time
  command to \<open>sendCommand\<close> exactly when the time-set flag is on, listen-only mode is
  off, five seconds or more have passed since the last recorded correction and the
  clocks differ by more than 1100 ms; the command is written to the socket only when
  moreover the TCP channel is connected and \<open>pack\<close> yields bytes; the correction
  timestamp is recorded (the fourth clock reading) exactly when that \<open>sendCommand\<close>
  call returns a positive count; and then a following frame whose first clock reading
  is less than five seconds after the recorded timestamp appends nothing to the trace,
  so the two frames together produce exactly one socket write.
\<close>

theorem setPioneerTime_policy:
  assumes "representable_int32 (clock E (clock_reads w + 2))"
    and "cmd = SetSystemTime \<lparr>unix_timestamp = word_of_int (trunc (clock E (clock_reads w + 2)))\<rparr>"
    and "w1 = snd (setPioneerTime E deviceMillis w)"
    and "w2 = snd (setPioneerTime E deviceMillis' w1)"
  shows
    "(War ''Setting time for vehicle'' \<in> set (new_events w w1) \<longleftrightarrow> time_sync_due E deviceMillis w) \<and>
     socket_writes (new_events w w1) =
       (if time_sync_due E deviceMillis w \<and> m_TCP_connected w
        then (case pack E cmd of Inl e \<Rightarrow> [] | Inr bs \<Rightarrow> [bs]) else []) \<and>
     m_last_set_time w1 =
       (if time_sync_due E deviceMillis w \<and> returned_positive (fst (sendCommand E cmd w))
        then clock E (clock_reads w + 3) else m_last_set_time w) \<and>
     (time_sync_due E deviceMillis w \<and> returned_positive (fst (sendCommand E cmd w)) \<and>
      clock E (clock_reads w + 4) - clock E (clock_reads w + 3) < 5 \<longrightarrow>
        new_events w1 w2 = [] \<and> length (socket_writes (new_events w w2)) = 1)"
proof (cases "time_sync_due E deviceMillis w")
  case False
  then show ?thesis
    using assms(3) by (simp add: setPioneerTime_not_due new_events_def)
next
  case due: True
  let ?out = "send_outcome E cmd (m_args w) (m_TCP_connected w)"
  have pos: "returned_positive (fst (sendCommand E cmd w)) \<longleftrightarrow> 0 < fst ?out"
    by (simp add: sendCommand_outcome returned_positive_def)
  have nl: "\<not> listen_mode (m_args w)"
    using due by (simp add: time_sync_due_def)
  show ?thesis
  proof (cases "0 < fst ?out")
    case False
    then show ?thesis
      using due assms(1,2,3) pos nl
      by (simp add: setPioneerTime_due Let_def send_outcome_socket_writes new_events_def)
  next
    case True
    have w1: "w1 = w\<lparr>trace := trace w @ War ''Setting time for vehicle'' # snd ?out,
                     clock_reads := clock_reads w + 4,
                     m_last_set_time := clock E (clock_reads w + 3)\<rparr>"
      using due assms(1,2,3) True by (simp add: setPioneerTime_due Let_def)
    have first: "socket_writes (new_events w w1) = 
       (if m_TCP_connected w then (case pack E cmd of Inl e \<Rightarrow> [] | Inr bs \<Rightarrow> [bs]) else [])"
      using nl by (simp add: w1 send_outcome_socket_writes new_events_def)
    have one: "length (socket_writes (new_events w w1)) = 1"
      using send_outcome_positive [OF True] first by auto
    have second: "clock E (clock_reads w + 4) - clock E (clock_reads w + 3) < 5 \<Longrightarrow> w2 = w1\<lparr>clock_reads := clock_reads w + 5\<rparr>"
    proof -
      assume a: "clock E (clock_reads w + 4) - clock E (clock_reads w + 3) < 5"
      then have "\<not> time_sync_due E deviceMillis' w1"
        by (simp add: w1 time_sync_due_def)
      then show ?thesis
        using a assms(4) due
        by (simp add: setPioneerTime_not_due) (simp add: w1 time_sync_due_def)
    qed
    show ?thesis
      using due True pos first one second
      by (auto simp add: w1 new_events_def)
  qed
qed

text \<open>
  The policy at the sample configuration (clock 2000 s, device clock 5 s, connected):
  the four conditions hold, the timestamp recorded is the fourth reading, and a second
  frame right after the first adds no socket write to the one of the first.
\<close>

theorem setPioneerTime_policy_witness:
  "time_sync_due sample_env 5000 sample_task \<and>
   m_last_set_time (snd (setPioneerTime sample_env 5000 sample_task)) = 4003 / 2 \<and>
   socket_writes (new_events sample_task
     (snd (setPioneerTime sample_env 7000 (snd (setPioneerTime sample_env 5000 sample_task))))) =
     [2, 115] # []"
  using setPioneerTime_policy [of sample_env sample_task
      "SetSystemTime \<lparr>unix_timestamp = word_of_int (trunc (clock sample_env (clock_reads sample_task + 2)))\<rparr>"
      "snd (setPioneerTime sample_env 5000 sample_task)" 5000
      "snd (setPioneerTime sample_env 7000 (snd (setPioneerTime sample_env 5000 sample_task)))" 7000]
  by (simp add: run_defs sample_defs time_sync_due_def representable_int32_def new_events_def
      returned_positive_def)

text \<open>
  C2 as stated fails when the TCP channel is not connected: the four conditions hold,
  the warning is logged, \<open>sendCommand\<close> is called and suppressed, nothing is written
  to the socket and \<open>m_last_set_time\<close> keeps its value 0; a second frame one and a
  half seconds later meets the four conditions again and goes the same way. Two
  frames, both over the threshold: two attempts, no command on the wire, no timestamp
  recorded.
\<close>

theorem setPioneerTime_disconnected_counterexample:
  "time_sync_due sample_env 5000 (sample_task\<lparr>m_TCP_connected := False\<rparr>) \<and>
   setPioneerTime sample_env 5000 (sample_task\<lparr>m_TCP_connected := False\<rparr>) =
     (Inr (), sample_task\<lparr>m_TCP_connected := False, clock_reads := 3,
                trace := [War ''Setting time for vehicle'']\<rparr>) \<and>
   time_sync_due sample_env 7000
     (sample_task\<lparr>m_TCP_connected := False, clock_reads := 3,
                trace := [War ''Setting time for vehicle'']\<rparr>) \<and>
   setPioneerTime sample_env 7000
     (sample_task\<lparr>m_TCP_connected := False, clock_reads := 3,
                trace := [War ''Setting time for vehicle'']\<rparr>) =
     (Inr (), sample_task\<lparr>m_TCP_connected := False, clock_reads := 6,
                trace := [War ''Setting time for vehicle'', War ''Setting time for vehicle'']\<rparr>) \<and>
   m_last_set_time sample_task = 0"
  by (simp add: run_defs sample_defs time_sync_due_def)

section \<open>Decoded frames: time sync, mirror, handler\<close>

lemma dispatchAsDevDataBinary_run:
  "dispatchAsDevDataBinary (at_offset buf startIndex) rb w =
     (Inr (), w\<lparr>trace := trace w @ mirror_events (m_args w) buf startIndex rb\<rparr>)"
  by (simp add: dispatchAsDevDataBinary_def mirror_events_def frame_bytes_def at_offset_def
      dispatch_def emit_def ret_def)

lemma handlePioneerV2Telemetry_run:
  "handlePioneerV2Telemetry E msg w =
     (Inr (), w\<lparr>trace := trace w @
        [Debug ''Depth = %d'',
         Dispatch (Depth (fp32 E (fp32 E (real_of_int (depth msg)) / 1000))),
         Dispatch (EulerAngles (real_of_int (rt_clock msg)) (radians (roll msg))
           (radians (pitch msg)) (radians (yaw msg)) (radians (yaw msg))),
         Dispatch (Temperature (fp32 E (real_of_int (temp_water msg) / 10)))] @
        (if generate_estimate_state_from_telemetry (m_args w) then
           [Dispatch (EstimatedState (radians (4118478174 / 100000000))
              (radians (- 870657964 / 100000000)) (fp32 E (radians (roll msg)))
              (fp32 E (radians (pitch msg))) (fp32 E (radians (yaw msg)))
              (fp32 E (real_of_int (depth msg))))]
         else [])\<rparr>)"
  by (simp add: handlePioneerV2Telemetry_def bnd_def dispatch_def emit_def ret_def)

lemma setPioneerTime_result: "fst (setPioneerTime E dev w) = Inr () \<or> fst (setPioneerTime E dev w) = Inl Undefined"
proof -
  consider (idle) "\<not> time_sync_due E dev w"
    | (fire) "time_sync_due E dev w" "representable_int32 (clock E (clock_reads w + 2))"
    | (undef) "time_sync_due E dev w" "\<not> representable_int32 (clock E (clock_reads w + 2))"
    by blast
  then show ?thesis
  proof cases
    case idle
    then show ?thesis by (simp add: setPioneerTime_not_due)
  next
    case fire
    then show ?thesis by (simp add: setPioneerTime_due Let_def)
  next
    case undef
    then show ?thesis by (simp add: setPioneerTime_undefined)
  qed
qed

lemma setPioneerTime_frame:
  "reads (snd (setPioneerTime E dev w)) = reads w \<and>
   m_args (snd (setPioneerTime E dev w)) = m_args w \<and>
   trace (snd (setPioneerTime E dev w)) = trace w @ new_events w (snd (setPioneerTime E dev w))"
proof -
  consider (idle) "\<not> time_sync_due E dev w"
    | (fire) "time_sync_due E dev w" "representable_int32 (clock E (clock_reads w + 2))"
    | (undef) "time_sync_due E dev w" "\<not> representable_int32 (clock E (clock_reads w + 2))"
    by blast
  then show ?thesis
  proof cases
    case idle
    then show ?thesis by (simp add: setPioneerTime_not_due new_events_def)
  next
    case fire
    then show ?thesis by (simp add: setPioneerTime_due Let_def new_events_def)
  next
    case undef
    then show ?thesis by (simp add: setPioneerTime_undefined new_events_def)
  qed
qed

lemma pioneerMessagesParse_V2:
  assumes "distinct_codes E"
    and "telemetry_code buf startIndex = PIONEER_MSG_VERSION_2_TELEMETRY_CODE E"
    and "unpack_V2Telemetry E buf startIndex len = Inr (rb, msg)" and "0 < rb"
    and "fst (setPioneerTime E (v2_time msg) (w\<lparr>reads := reads w @ [startIndex, startIndex + 1]\<rparr>)) = Inr ()"
  shows "fst (pioneerMessagesParse E buf startIndex len w) = Inr rb \<and>
     new_events w (snd (pioneerMessagesParse E buf startIndex len w)) =
       new_events w (snd (setPioneerTime E (v2_time msg)
          (w\<lparr>reads := reads w @ [startIndex, startIndex + 1]\<rparr>))) @
       mirror_events (m_args w) buf startIndex rb @
       new_events w (snd (handlePioneerV2Telemetry E msg w))"
proof -
  let ?w0 = "w\<lparr>reads := reads w @ [startIndex, startIndex + 1]\<rparr>"
  obtain r w1 where s: "setPioneerTime E (v2_time msg) ?w0 = (r, w1)"
    by (cases "setPioneerTime E (v2_time msg) ?w0")
  with assms(5) have r: "r = Inr ()" by simp
  from setPioneerTime_frame [of E "v2_time msg" ?w0] s
  have "m_args w1 = m_args w" "trace w1 = trace w @ new_events ?w0 w1"
    by simp_all
  then obtain n where f: "m_args w1 = m_args w" "trace w1 = trace w @ n"
    by blast
  have "pioneerMessagesParse E buf startIndex len w =
      (Inr rb, snd (handlePioneerV2Telemetry E msg
          (w1\<lparr>trace := trace w1 @ mirror_events (m_args w1) buf startIndex rb\<rparr>)))"
    using assms(1-4) s r
    by (simp add: pioneerMessagesParse_def pioneerMessagesParse_try_def try_catch_def bnd_def
        rd_def lift_def ret_def Let_def distinct_codes_def telemetry_code_def
        dispatchAsDevDataBinary_run handlePioneerV2Telemetry_run)
  then show ?thesis
    using f s by (simp add: handlePioneerV2Telemetry_run new_events_def)
qed


lemma pioneerMessagesParse_V1:
  assumes "distinct_codes E"
    and "telemetry_code buf startIndex = PIONEER_MSG_VERSION_1_TELEMETRY_CODE E"
    and "unpack_V1Telemetry E buf startIndex len = Inr (rb, msg)" and "0 < rb"
    and "fst (setPioneerTime E (v1_time msg) (w\<lparr>reads := reads w @ [startIndex, startIndex + 1]\<rparr>)) = Inr ()"
  shows "fst (pioneerMessagesParse E buf startIndex len w) = Inr rb \<and>
     new_events w (snd (pioneerMessagesParse E buf startIndex len w)) =
       new_events w (snd (setPioneerTime E (v1_time msg)
          (w\<lparr>reads := reads w @ [startIndex, startIndex + 1]\<rparr>))) @
       mirror_events (m_args w) buf startIndex rb @
       new_events w (snd (handlePioneerV1Telemetry msg w))"
proof -
  let ?w0 = "w\<lparr>reads := reads w @ [startIndex, startIndex + 1]\<rparr>"
  obtain r w1 where s: "setPioneerTime E (v1_time msg) ?w0 = (r, w1)"
    by (cases "setPioneerTime E (v1_time msg) ?w0")
  with assms(5) have r: "r = Inr ()" by simp
  from setPioneerTime_frame [of E "v1_time msg" ?w0] s
  have "m_args w1 = m_args w" "trace w1 = trace w @ new_events ?w0 w1"
    by simp_all
  then obtain n where f: "m_args w1 = m_args w" "trace w1 = trace w @ n"
    by blast
  have "pioneerMessagesParse E buf startIndex len w =
      (Inr rb, snd (handlePioneerV1Telemetry msg
          (w1\<lparr>trace := trace w1 @ mirror_events (m_args w1) buf startIndex rb\<rparr>)))"
    using assms(1-4) s r
    by (simp add: pioneerMessagesParse_def pioneerMessagesParse_try_def try_catch_def bnd_def
        rd_def lift_def ret_def Let_def distinct_codes_def telemetry_code_def
        dispatchAsDevDataBinary_run handlePioneerV1Telemetry_def emit_def)
  then show ?thesis
    using f s by (simp add: handlePioneerV1Telemetry_def emit_def new_events_def)
qed

lemma pioneerMessagesParse_CC:
  assumes "distinct_codes E"
    and "telemetry_code buf startIndex = PIONEER_MSG_VERSION_2_COMPASS_CALIBRATION_CODE E"
    and "unpack_V2Compasscalibration E buf startIndex len = Inr (rb, msg)" and "0 < rb"
  shows "fst (pioneerMessagesParse E buf startIndex len w) = Inr rb \<and>
     new_events w (snd (pioneerMessagesParse E buf startIndex len w)) =
       mirror_events (m_args w) buf startIndex rb @
       new_events w (snd (handlePioneerV2CompassCalibration msg w))"
  using assms
  by (simp add: pioneerMessagesParse_def pioneerMessagesParse_try_def try_catch_def bnd_def
      rd_def lift_def ret_def Let_def distinct_codes_def telemetry_code_def
      dispatchAsDevDataBinary_run handlePioneerV2CompassCalibration_def emit_def new_events_def)

lemma pioneerCommandRepliesParse_Ack:
  assumes "distinct_codes E"
    and "reply_code buf startIndex = PIONEER_REPLY_VERSION_2_ACK E"
    and "unpack_Ack E buf startIndex len = Inr (rb, msg)" and "0 < rb"
  shows "fst (pioneerCommandRepliesParse E buf startIndex len w) = Inr rb \<and>
     new_events w (snd (pioneerCommandRepliesParse E buf startIndex len w)) =
       mirror_events (m_args w) buf startIndex rb @
       new_events w (snd (handlePioneerV2ReplyAck msg w))"
  using assms
  by (simp add: pioneerCommandRepliesParse_def pioneerCommandRepliesParse_try_def try_catch_def
      bnd_def rd_def lift_def ret_def Let_def distinct_codes_def reply_code_def
      dispatchAsDevDataBinary_run handlePioneerV2ReplyAck_def emit_def new_events_def)

lemma pioneerCommandRepliesParse_Ping:
  assumes "distinct_codes E"
    and "reply_code buf startIndex = PIONEER_REPLY_VERSION_2_PING E"
    and "unpack_Ping E buf startIndex len = Inr (rb, msg)" and "0 < rb"
  shows "fst (pioneerCommandRepliesParse E buf startIndex len w) = Inr rb \<and>
     new_events w (snd (pioneerCommandRepliesParse E buf startIndex len w)) =
       mirror_events (m_args w) buf startIndex rb @
       new_events w (snd (handlePioneerV2ReplyPing msg w))"
  using assms
  by (simp add: pioneerCommandRepliesParse_def pioneerCommandRepliesParse_try_def try_catch_def
      bnd_def rd_def lift_def ret_def Let_def distinct_codes_def reply_code_def
      dispatchAsDevDataBinary_run handlePioneerV2ReplyPing_def emit_def new_events_def)

lemma pioneerCommandRepliesParse_GetCamera:
  assumes "distinct_codes E"
    and "reply_code buf startIndex = PIONEER_REPLY_VERSION_2_GET_CAMERA E"
    and "unpack_GetCamera E buf startIndex len = Inr (rb, msg)" and "0 < rb"
  shows "fst (pioneerCommandRepliesParse E buf startIndex len w) = Inr rb \<and>
     new_events w (snd (pioneerCommandRepliesParse E buf startIndex len w)) =
       mirror_events (m_args w) buf startIndex rb @
       new_events w (snd (handlePioneerV2ReplyGetCamera msg w))"
  using assms
  by (simp add: pioneerCommandRepliesParse_def pioneerCommandRepliesParse_try_def try_catch_def
      bnd_def rd_def lift_def ret_def Let_def distinct_codes_def reply_code_def
      dispatchAsDevDataBinary_run handlePioneerV2ReplyGetCamera_def emit_def new_events_def)

lemma orderly_no_echo:
  assumes "orderly m" and "\<not> log_pioneer_imc (m_args w)"
  shows "echoes (new_events w (snd (m w))) = []"
proof -
  from assms obtain new where "trace (snd (m w)) = trace w @ new" "echoes new = []"
    unfolding orderly_def by blast
  then show ?thesis by (simp add: new_events_def)
qed

text \<open>
  C7, as the code has it. Without the structured-echo flag neither dispatch function
  dispatches any \<open>DevDataBinary\<close>. For a frame that is decoded with a positive count
  \<open>rb\<close>, the events a dispatch function appends are, in this order: for the two
  telemetry formats the events of the time-sync policy on the record's device clock;
  then the mirror of the frame's \<open>rb mod 65536\<close> bytes (present exactly when the flag
  is set); then the events of the record's handler, among them the published values.
  The mirror therefore precedes the translation and publication of the record, and
  follows the time-sync policy.
\<close>

theorem mirror_before_handler:
  assumes "distinct_codes E" and "wr = w\<lparr>reads := reads w @ [startIndex, startIndex + 1]\<rparr>"
  shows
   "(\<not> log_pioneer_imc (m_args w) \<longrightarrow>
       echoes (new_events w (snd (pioneerMessagesParse E buf startIndex len w))) = [] \<and>
       echoes (new_events w (snd (pioneerCommandRepliesParse E buf startIndex len w))) = []) \<and>
    (telemetry_code buf startIndex = PIONEER_MSG_VERSION_1_TELEMETRY_CODE E \<and>
     unpack_V1Telemetry E buf startIndex len = Inr (rb, msgV1Telm) \<and> 0 < rb \<and>
     fst (setPioneerTime E (v1_time msgV1Telm) wr) = Inr () \<longrightarrow>
       new_events w (snd (pioneerMessagesParse E buf startIndex len w)) =
         new_events w (snd (setPioneerTime E (v1_time msgV1Telm) wr)) @
         mirror_events (m_args w) buf startIndex rb @
         new_events w (snd (handlePioneerV1Telemetry msgV1Telm w))) \<and>
    (telemetry_code buf startIndex = PIONEER_MSG_VERSION_2_TELEMETRY_CODE E \<and>
     unpack_V2Telemetry E buf startIndex len = Inr (rb, msgV2Telm) \<and> 0 < rb \<and>
     fst (setPioneerTime E (v2_time msgV2Telm) wr) = Inr () \<longrightarrow>
       new_events w (snd (pioneerMessagesParse E buf startIndex len w)) =
         new_events w (snd (setPioneerTime E (v2_time msgV2Telm) wr)) @
         mirror_events (m_args w) buf startIndex rb @
         new_events w (snd (handlePioneerV2Telemetry E msgV2Telm w))) \<and>
    (telemetry_code buf startIndex = PIONEER_MSG_VERSION_2_COMPASS_CALIBRATION_CODE E \<and>
     unpack_V2Compasscalibration E buf startIndex len = Inr (rb, msgV2CompassCal) \<and> 0 < rb \<longrightarrow>
       new_events w (snd (pioneerMessagesParse E buf startIndex len w)) =
         mirror_events (m_args w) buf startIndex rb @
         new_events w (snd (handlePioneerV2CompassCalibration msgV2CompassCal w))) \<and>
    (reply_code buf startIndex = PIONEER_REPLY_VERSION_2_ACK E \<and>
     unpack_Ack E buf startIndex len = Inr (rb, msgAck) \<and> 0 < rb \<longrightarrow>
       new_events w (snd (pioneerCommandRepliesParse E buf startIndex len w)) =
         mirror_events (m_args w) buf startIndex rb @
         new_events w (snd (handlePioneerV2ReplyAck msgAck w))) \<and>
    (reply_code buf startIndex = PIONEER_REPLY_VERSION_2_PING E \<and>
     unpack_Ping E buf startIndex len = Inr (rb, msgPing) \<and> 0 < rb \<longrightarrow>
       new_events w (snd (pioneerCommandRepliesParse E buf startIndex len w)) =
         mirror_events (m_args w) buf startIndex rb @
         new_events w (snd (handlePioneerV2ReplyPing msgPing w))) \<and>
    (reply_code buf startIndex = PIONEER_REPLY_VERSION_2_GET_CAMERA E \<and>
     unpack_GetCamera E buf startIndex len = Inr (rb, msgGetCamParams) \<and> 0 < rb \<longrightarrow>
       new_events w (snd (pioneerCommandRepliesParse E buf startIndex len w)) =
         mirror_events (m_args w) buf startIndex rb @
         new_events w (snd (handlePioneerV2ReplyGetCamera msgGetCamParams w)))"
  using assms
  by (intro conjI impI)
    (simp_all add: orderly_no_echo orderly_pioneerMessagesParse orderly_pioneerCommandRepliesParse
      pioneerMessagesParse_V1 pioneerMessagesParse_V2 pioneerMessagesParse_CC
      pioneerCommandRepliesParse_Ack pioneerCommandRepliesParse_Ping
      pioneerCommandRepliesParse_GetCamera)

lemmas parse_defs = pioneerMessagesParse_def pioneerMessagesParse_try_def
  pioneerCommandRepliesParse_def pioneerCommandRepliesParse_try_def
  handlePioneerV2ReplyAck_def handlePioneerV2ReplyPing_def handlePioneerV2ReplyGetCamera_def
  handlePioneerV1Telemetry_def handlePioneerV2Telemetry_def handlePioneerV2CompassCalibration_def

lemma upt_small: "[0..<1] = [0]" "[0..<2] = [0, 1]" "[0..<4] = [0, 1, 2, 3]"
  by (simp_all add: upt_rec)

text \<open>
  C7 as stated fails on telemetry: with the structured echo configured, a version-2
  frame at the sample configuration first runs the time-sync policy (the warning, the
  set-time command on the socket, its log entry and its own echo, the new correction
  timestamp); the frame's mirror is the sixth event, followed by the published values.
\<close>

theorem mirror_after_time_sync_counterexample:
  "new_events (sample_task\<lparr>m_args := sample_args\<lparr>log_pioneer_imc := True\<rparr>\<rparr>)
     (snd (pioneerMessagesParse sample_env (buffer_of [2, 1]) 0 2
        (sample_task\<lparr>m_args := sample_args\<lparr>log_pioneer_imc := True\<rparr>\<rparr>))) =
     [War ''Setting time for vehicle'',
      SocketWrite [2, 115],
      Debug ''Send %d bytes for msg %s'',
      LoggerWrite LOGGER_COMMANDS [2, 115],
      Dispatch (DevDataBinary [2, 115]),
      Dispatch (DevDataBinary [2, 1]),
      Debug ''Depth = %d'',
      Dispatch (Depth (3 / 2)),
      Dispatch (EulerAngles 7 (pi / 2) 0 pi pi),
      Dispatch (Temperature (43 / 2))] \<and>
   m_last_set_time (snd (pioneerMessagesParse sample_env (buffer_of [2, 1]) 0 2
        (sample_task\<lparr>m_args := sample_args\<lparr>log_pioneer_imc := True\<rparr>\<rparr>))) = 4003 / 2"
  by (simp add: parse_defs run_defs sample_defs new_events_def Let_def radians_def upt_small
      binary32_samples)

text \<open>
  At the sample configuration: with the echo configured, a camera reply and a compass
  calibration frame are mirrored before their handlers log; without it, a version-2
  frame leaves no echo; with it, the frame's mirror is published before the values
  translated from the record.
\<close>

theorem mirror_before_handler_witness:
  "new_events (sample_task\<lparr>m_args := sample_args\<lparr>log_pioneer_imc := True\<rparr>\<rparr>)
     (snd (pioneerCommandRepliesParse sample_env (buffer_of [67]) 0 1
        (sample_task\<lparr>m_args := sample_args\<lparr>log_pioneer_imc := True\<rparr>\<rparr>))) =
     [Dispatch (DevDataBinary [67]), Debug ''camera_bitrate %d''] \<and>
   new_events (sample_task\<lparr>m_args := sample_args\<lparr>log_pioneer_imc := True\<rparr>\<rparr>)
     (snd (pioneerMessagesParse sample_env (buffer_of [2, 2]) 0 2
        (sample_task\<lparr>m_args := sample_args\<lparr>log_pioneer_imc := True\<rparr>\<rparr>))) =
     [Dispatch (DevDataBinary [2, 2]), Debug ''progress_thruster %u''] \<and>
   echoes (new_events sample_task
     (snd (pioneerMessagesParse sample_env (buffer_of [2, 1]) 0 2 sample_task))) = [] \<and>
   published (new_events sample_task
     (snd (pioneerMessagesParse sample_env (buffer_of [2, 1]) 0 2
        (sample_task\<lparr>m_last_set_time := 1999, m_args := sample_args\<lparr>log_pioneer_imc := True\<rparr>\<rparr>)))) =
     [DevDataBinary [2, 1], Depth (3 / 2), EulerAngles 7 (pi / 2) 0 pi pi, Temperature (43 / 2)]"
  using
    mirror_before_handler [where E = sample_env
      and w = "sample_task\<lparr>m_args := sample_args\<lparr>log_pioneer_imc := True\<rparr>\<rparr>"
      and startIndex = 0 and buf = "buffer_of [67]" and len = 1 and rb = 1
      and msgV1Telm = "\<lparr>v1_time = 5000, battery_voltage = 12\<rparr>" and msgV2Telm = sample_v2
      and msgV2CompassCal = "\<lparr>progress_thruster = 50\<rparr>" and msgAck = "\<lparr>ack_payload = []\<rparr>"
      and msgPing = "\<lparr>ping_payload = []\<rparr>" and msgGetCamParams = "\<lparr>camera_bitrate = 8000\<rparr>", OF _ refl]
    mirror_before_handler [where E = sample_env
      and w = "sample_task\<lparr>m_args := sample_args\<lparr>log_pioneer_imc := True\<rparr>\<rparr>"
      and startIndex = 0 and buf = "buffer_of [2, 2]" and len = 2 and rb = 2
      and msgV1Telm = "\<lparr>v1_time = 5000, battery_voltage = 12\<rparr>" and msgV2Telm = sample_v2
      and msgV2CompassCal = "\<lparr>progress_thruster = 50\<rparr>" and msgAck = "\<lparr>ack_payload = []\<rparr>"
      and msgPing = "\<lparr>ping_payload = []\<rparr>" and msgGetCamParams = "\<lparr>camera_bitrate = 8000\<rparr>", OF _ refl]
    mirror_before_handler [where E = sample_env and w = sample_task
      and startIndex = 0 and buf = "buffer_of [2, 1]" and len = 2 and rb = 2
      and msgV1Telm = "\<lparr>v1_time = 5000, battery_voltage = 12\<rparr>" and msgV2Telm = sample_v2
      and msgV2CompassCal = "\<lparr>progress_thruster = 50\<rparr>" and msgAck = "\<lparr>ack_payload = []\<rparr>"
      and msgPing = "\<lparr>ping_payload = []\<rparr>" and msgGetCamParams = "\<lparr>camera_bitrate = 8000\<rparr>", OF _ refl]
    mirror_before_handler [where E = sample_env
      and w = "sample_task\<lparr>m_last_set_time := 1999,
                 m_args := sample_args\<lparr>log_pioneer_imc := True\<rparr>\<rparr>"
      and startIndex = 0 and buf = "buffer_of [2, 1]" and len = 2 and rb = 2
      and msgV1Telm = "\<lparr>v1_time = 5000, battery_voltage = 12\<rparr>" and msgV2Telm = sample_v2
      and msgV2CompassCal = "\<lparr>progress_thruster = 50\<rparr>" and msgAck = "\<lparr>ack_payload = []\<rparr>"
      and msgPing = "\<lparr>ping_payload = []\<rparr>" and msgGetCamParams = "\<lparr>camera_bitrate = 8000\<rparr>", OF _ refl]
  by (simp add: parse_defs run_defs sample_defs new_events_def Let_def radians_def
      distinct_codes_def upt_small telemetry_code_def reply_code_def mirror_events_def
      frame_bytes_def binary32_samples)

section \<open>The watchdog\<close>






lemma socket_writes_append [simp]: "socket_writes (xs @ ys) = socket_writes xs @ socket_writes ys"
  by (induction xs) simp_all





section \<open>The catch at the dispatcher boundary\<close>

lemma catch_handler_returns: "\<exists>x w'. bnd (emit (Err e)) (\<lambda>_. ret (0::int)) w = (Inr x, w')"
  by (simp add: bnd_def emit_def ret_def)

text \<open>
  C8. When the \<^verbatim>\<open>try\<close> block of a dispatch function raises an exception, the
  function returns 0 and appends the error line to the trace the block left behind; no
  dispatch call ends in a raised exception; and the connection state after a dispatch
  call is the one before it.
\<close>

theorem dispatch_catches:
  "(pioneerMessagesParse_try E buf startIndex len w = (Inl (Raise e), w') \<longrightarrow>
      pioneerMessagesParse E buf startIndex len w = (Inr 0, w'\<lparr>trace := trace w' @ [Err e]\<rparr>)) \<and>
   (pioneerCommandRepliesParse_try E buf startIndex len w = (Inl (Raise e), w') \<longrightarrow>
      pioneerCommandRepliesParse E buf startIndex len w =
        (Inr 0, w'\<lparr>trace := trace w' @ [Err e]\<rparr>)) \<and>
   fst (pioneerMessagesParse E buf startIndex len w) \<noteq> Inl (Raise e) \<and>
   fst (pioneerCommandRepliesParse E buf startIndex len w) \<noteq> Inl (Raise e) \<and>
   m_TCP_connected (snd (pioneerMessagesParse E buf startIndex len w)) = m_TCP_connected w \<and>
   m_TCP_connected (snd (pioneerCommandRepliesParse E buf startIndex len w)) = m_TCP_connected w"
proof (intro conjI impI)
  assume "pioneerMessagesParse_try E buf startIndex len w = (Inl (Raise e), w')"
  then show "pioneerMessagesParse E buf startIndex len w =
      (Inr 0, w'\<lparr>trace := trace w' @ [Err e]\<rparr>)"
    by (simp add: pioneerMessagesParse_def try_catch_def bnd_def emit_def ret_def)
next
  assume "pioneerCommandRepliesParse_try E buf startIndex len w = (Inl (Raise e), w')"
  then show "pioneerCommandRepliesParse E buf startIndex len w =
      (Inr 0, w'\<lparr>trace := trace w' @ [Err e]\<rparr>)"
    by (simp add: pioneerCommandRepliesParse_def try_catch_def bnd_def emit_def ret_def)
next
  show "fst (pioneerMessagesParse E buf startIndex len w) \<noteq> Inl (Raise e)"
    unfolding pioneerMessagesParse_def
    by (rule try_catch_no_raise) (rule catch_handler_returns)
next
  show "fst (pioneerCommandRepliesParse E buf startIndex len w) \<noteq> Inl (Raise e)"
    unfolding pioneerCommandRepliesParse_def
    by (rule try_catch_no_raise) (rule catch_handler_returns)
next
  show "m_TCP_connected (snd (pioneerMessagesParse E buf startIndex len w)) = m_TCP_connected w"
    using orderly_pioneerMessagesParse [of E buf startIndex len] by (simp add: orderly_def)
next
  show "m_TCP_connected (snd (pioneerCommandRepliesParse E buf startIndex len w)) =
      m_TCP_connected w"
    using orderly_pioneerCommandRepliesParse [of E buf startIndex len] by (simp add: orderly_def)
qed

text \<open>
  With a codec whose decoder raises on the frame, the block of either dispatch function
  raises and the function returns 0 with the error logged.
\<close>

theorem dispatch_catches_witness:
  "pioneerMessagesParse_try (sample_env\<lparr>unpack_V2Telemetry := \<lambda>buf startIndex len. Inl ''truncated''\<rparr>)
      (buffer_of [2, 1]) 0 2 sample_task =
     (Inl (Raise ''truncated''), sample_task\<lparr>reads := [0, 1]\<rparr>) \<and>
   pioneerMessagesParse (sample_env\<lparr>unpack_V2Telemetry := \<lambda>buf startIndex len. Inl ''truncated''\<rparr>)
      (buffer_of [2, 1]) 0 2 sample_task =
     (Inr 0, sample_task\<lparr>reads := [0, 1], trace := [Err ''truncated'']\<rparr>) \<and>
   pioneerCommandRepliesParse_try (sample_env\<lparr>unpack_Ack := \<lambda>buf startIndex len. Inl ''truncated''\<rparr>)
      (buffer_of [97]) 0 1 sample_task =
     (Inl (Raise ''truncated''), sample_task\<lparr>reads := [0]\<rparr>) \<and>
   pioneerCommandRepliesParse (sample_env\<lparr>unpack_Ack := \<lambda>buf startIndex len. Inl ''truncated''\<rparr>)
      (buffer_of [97]) 0 1 sample_task =
     (Inr 0, sample_task\<lparr>reads := [0], trace := [Err ''truncated'']\<rparr>)"
  using dispatch_catches [of "sample_env\<lparr>unpack_V2Telemetry := \<lambda>buf startIndex len. Inl ''truncated''\<rparr>"
      "buffer_of [2, 1]" 0 2 sample_task "''truncated''" "sample_task\<lparr>reads := [0, 1]\<rparr>"]
    dispatch_catches [of "sample_env\<lparr>unpack_Ack := \<lambda>buf startIndex len. Inl ''truncated''\<rparr>"
      "buffer_of [97]" 0 1 sample_task "''truncated''" "sample_task\<lparr>reads := [0]\<rparr>"]
  by (simp add: parse_defs run_defs sample_defs Let_def)

section \<open>Unrecognised type codes\<close>

lemma pioneerMessagesParse_unknown:
  assumes "telemetry_code buf startIndex \<notin>
             {PIONEER_MSG_VERSION_1_TELEMETRY_CODE E, PIONEER_MSG_VERSION_2_TELEMETRY_CODE E,
              PIONEER_MSG_VERSION_2_COMPASS_CALIBRATION_CODE E}"
  shows "pioneerMessagesParse E buf startIndex len w =
           (Inr 0, w\<lparr>reads := reads w @ [startIndex, startIndex + 1]\<rparr>)"
  using assms
  by (simp add: pioneerMessagesParse_def pioneerMessagesParse_try_def try_catch_def bnd_def
      rd_def ret_def Let_def telemetry_code_def)

lemma pioneerCommandRepliesParse_unknown:
  assumes "reply_code buf startIndex \<notin>
             {PIONEER_REPLY_VERSION_2_ACK E, PIONEER_REPLY_VERSION_2_PING E,
              PIONEER_REPLY_VERSION_2_GET_CAMERA E}"
  shows "pioneerCommandRepliesParse E buf startIndex len w =
           (Inr 0, w\<lparr>reads := reads w @ [startIndex]\<rparr>)"
  using assms
  by (simp add: pioneerCommandRepliesParse_def pioneerCommandRepliesParse_try_def try_catch_def
      bnd_def rd_def ret_def Let_def reply_code_def)

text \<open>
  C1, as the code has it. When the type code is none of the recognised ones, a dispatch
  function returns 0 and its only trace is the record of the code bytes it read:
  nothing is decoded, mirrored, handled or sent, and no byte is counted as consumed.
\<close>

theorem unknown_code_returns_zero:
  "(telemetry_code buf startIndex \<noteq> PIONEER_MSG_VERSION_1_TELEMETRY_CODE E \<and>
    telemetry_code buf startIndex \<noteq> PIONEER_MSG_VERSION_2_TELEMETRY_CODE E \<and>
    telemetry_code buf startIndex \<noteq> PIONEER_MSG_VERSION_2_COMPASS_CALIBRATION_CODE E \<longrightarrow>
      pioneerMessagesParse E buf startIndex len w =
        (Inr 0, w\<lparr>reads := reads w @ [startIndex, startIndex + 1]\<rparr>)) \<and>
   (reply_code buf startIndex \<noteq> PIONEER_REPLY_VERSION_2_ACK E \<and>
    reply_code buf startIndex \<noteq> PIONEER_REPLY_VERSION_2_PING E \<and>
    reply_code buf startIndex \<noteq> PIONEER_REPLY_VERSION_2_GET_CAMERA E \<longrightarrow>
      pioneerCommandRepliesParse E buf startIndex len w =
        (Inr 0, w\<lparr>reads := reads w @ [startIndex]\<rparr>))"
  by (simp add: pioneerMessagesParse_unknown pioneerCommandRepliesParse_unknown)

text \<open>The code bytes 7, 7 at index 2 are unknown to both channels of the sample.\<close>

theorem unknown_code_returns_zero_witness:
  "pioneerMessagesParse sample_env (buffer_of [7, 7, 7, 7]) 2 2 sample_task =
     (Inr 0, sample_task\<lparr>reads := [2, 3]\<rparr>) \<and>
   pioneerCommandRepliesParse sample_env (buffer_of [7, 7, 7, 7]) 2 2 sample_task =
     (Inr 0, sample_task\<lparr>reads := [2]\<rparr>)"
  using unknown_code_returns_zero [of "buffer_of [7, 7, 7, 7]" 2 sample_env 2 sample_task]
  by (simp add: parse_defs run_defs sample_defs Let_def telemetry_code_def reply_code_def)

text \<open>
  C1 as stated fails: on a two-byte telemetry buffer with the unrecognised code 65535
  and on a one-byte reply buffer with the unrecognised code 255 the consumed count is
  0, not at least one.
\<close>

theorem unknown_code_counterexample:
  "telemetry_code (buffer_of [255, 255]) 0 = 65535 \<and>
   65535 \<noteq> PIONEER_MSG_VERSION_1_TELEMETRY_CODE sample_env \<and>
   65535 \<noteq> PIONEER_MSG_VERSION_2_TELEMETRY_CODE sample_env \<and>
   65535 \<noteq> PIONEER_MSG_VERSION_2_COMPASS_CALIBRATION_CODE sample_env \<and>
   fst (pioneerMessagesParse sample_env (buffer_of [255, 255]) 0 2 sample_task) = Inr 0 \<and>
   reply_code (buffer_of [255]) 0 = 255 \<and>
   255 \<noteq> PIONEER_REPLY_VERSION_2_ACK sample_env \<and>
   255 \<noteq> PIONEER_REPLY_VERSION_2_PING sample_env \<and>
   255 \<noteq> PIONEER_REPLY_VERSION_2_GET_CAMERA sample_env \<and>
   fst (pioneerCommandRepliesParse sample_env (buffer_of [255]) 0 1 sample_task) = Inr 0"
  by (simp add: parse_defs run_defs sample_defs Let_def telemetry_code_def reply_code_def)

section \<open>Reads outside the declared window\<close>

lemma keeps_reads_basic [simp]:
  "keeps_reads (ret x)" "keeps_reads (raise e)" "keeps_reads (emit ev)"
  "keeps_reads (getSinceEpoch E)" "keeps_reads (to_int32 r)" "keeps_reads (to_int16 r)"
  "keeps_reads (dispatchAsDevDataBinary buf len)" "keeps_reads (sendCommand E msg)"
  "keeps_reads (setPioneerTime E dev)"
  by (simp_all add: keeps_reads_def ret_def raise_def emit_def getSinceEpoch_def to_int32_def
      to_int16_def dispatchAsDevDataBinary_def dispatch_def sendCommand_outcome
      setPioneerTime_frame)

lemma keeps_reads_lift [simp]: "keeps_reads (lift r)"
  by (cases r) (simp_all add: lift_def)

lemma keeps_reads_bnd:
  assumes "keeps_reads m" and "\<And>x. keeps_reads (f x)"
  shows "keeps_reads (bnd m f)"
  unfolding keeps_reads_def
proof
  fix w
  obtain r w1 where mw: "m w = (r, w1)" by (cases "m w")
  with assms(1) have "reads w1 = reads w"
    unfolding keeps_reads_def by (metis snd_conv)
  with mw assms(2) show "reads (snd (bnd m f w)) = reads w"
    by (cases r) (simp_all add: bnd_def keeps_reads_def)
qed

lemma keeps_reads_try_catch:
  assumes "keeps_reads m" and "\<And>e. keeps_reads (h e)"
  shows "keeps_reads (try_catch m h)"
  unfolding keeps_reads_def
proof
  fix w
  obtain r w1 where mw: "m w = (r, w1)" by (cases "m w")
  with assms(1) have "reads w1 = reads w"
    unfolding keeps_reads_def by (metis snd_conv)
  with mw assms(2) show "reads (snd (try_catch m h w)) = reads w"
    by (auto simp add: try_catch_def keeps_reads_def split: sum.splits fault.splits)
qed

lemma keeps_reads_if:
  assumes "c \<Longrightarrow> keeps_reads m" and "\<not> c \<Longrightarrow> keeps_reads n"
  shows "keeps_reads (if c then m else n)"
  using assms by simp

lemma keeps_reads_handlers [simp]:
  "keeps_reads (handlePioneerV2ReplyAck a)" "keeps_reads (handlePioneerV2ReplyPing p)"
  "keeps_reads (handlePioneerV2ReplyGetCamera c)" "keeps_reads (handlePioneerV1Telemetry t)"
  "keeps_reads (handlePioneerV2CompassCalibration cc)" "keeps_reads (handlePioneerV2Telemetry E v)"
  by (simp_all add: handlePioneerV2ReplyAck_def handlePioneerV2ReplyPing_def
      handlePioneerV2ReplyGetCamera_def handlePioneerV1Telemetry_def
      handlePioneerV2CompassCalibration_def keeps_reads_def handlePioneerV2Telemetry_run
      ret_def emit_def)

lemma keeps_reads_catch_handler: "keeps_reads (bnd (emit (Err e)) (\<lambda>_. ret (0::int)))"
  by (intro keeps_reads_bnd) simp_all

lemma reads_of_two:
  assumes "\<And>b0 b1. keeps_reads (rest b0 b1)" and "\<And>e. keeps_reads (h e)"
  shows "reads (snd (try_catch (bnd (rd buf i) (\<lambda>b0. bnd (rd buf j) (\<lambda>b1. rest b0 b1))) h w)) =
    reads w @ [i, j]"
proof -
  have "try_catch (bnd (rd buf i) (\<lambda>b0. bnd (rd buf j) (\<lambda>b1. rest b0 b1))) h w =
      try_catch (rest (buf i) (buf j)) h (w\<lparr>reads := reads w @ [i, j]\<rparr>)"
    by (simp add: try_catch_def bnd_def rd_def)
  moreover have "keeps_reads (try_catch (rest (buf i) (buf j)) h)"
    by (intro keeps_reads_try_catch assms)
  ultimately show ?thesis
    by (simp add: keeps_reads_def)
qed

lemma reads_of_one:
  assumes "\<And>b0. keeps_reads (rest b0)" and "\<And>e. keeps_reads (h e)"
  shows "reads (snd (try_catch (bnd (rd buf i) (\<lambda>b0. rest b0)) h w)) = reads w @ [i]"
proof -
  have "try_catch (bnd (rd buf i) (\<lambda>b0. rest b0)) h w =
      try_catch (rest (buf i)) h (w\<lparr>reads := reads w @ [i]\<rparr>)"
    by (simp add: try_catch_def bnd_def rd_def)
  moreover have "keeps_reads (try_catch (rest (buf i)) h)"
    by (intro keeps_reads_try_catch assms)
  ultimately show ?thesis
    by (simp add: keeps_reads_def)
qed

text \<open>
  Whatever the declared length, the telemetry dispatch function reads the two bytes at
  \<open>startIndex\<close> and \<open>startIndex + 1\<close>, and the reply dispatch function the byte at
  \<open>startIndex\<close>; nothing else in either function reads the buffer by subscript.
\<close>

lemma pioneerMessagesParse_reads:
  "reads (snd (pioneerMessagesParse E buf startIndex len w)) =
     reads w @ [startIndex, startIndex + 1]"
  unfolding pioneerMessagesParse_def pioneerMessagesParse_try_def Let_def
  by (rule reads_of_two) (auto intro!: keeps_reads_bnd keeps_reads_if)

lemma pioneerCommandRepliesParse_reads:
  "reads (snd (pioneerCommandRepliesParse E buf startIndex len w)) = reads w @ [startIndex]"
  unfolding pioneerCommandRepliesParse_def pioneerCommandRepliesParse_try_def Let_def
  by (rule reads_of_one) (auto intro!: keeps_reads_bnd keeps_reads_if)

text \<open>
  C4 fails on the code. The telemetry dispatch function handed the window \<open>[0, 1)\<close>
  (one byte, the second byte of the receive buffer holding an older value) reads the
  bytes at index 0 and at index 1 and returns 0; handed the empty window \<open>[0, 0)\<close>
  it reads both as well, and the reply dispatch function reads index 0.
\<close>

theorem short_frame_reads_past_window:
  "reads (snd (pioneerMessagesParse sample_env (buffer_of [2, 1]) 0 1 sample_task)) = [0, 1] \<and>
   fst (pioneerMessagesParse sample_env (buffer_of [2, 1]) 0 1 sample_task) = Inr 0 \<and>
   reads (snd (pioneerMessagesParse sample_env (buffer_of [2, 1]) 0 0 sample_task)) = [0, 1] \<and>
   reads (snd (pioneerCommandRepliesParse sample_env (buffer_of [97]) 0 0 sample_task)) = [0]"
  by (simp add: parse_defs run_defs sample_defs Let_def)

section \<open>Translation of version-2 telemetry\<close>



text \<open>
  C10, as the code has it. With the synthetic-estimate flag on, the handler publishes a
  fourth message, the estimated state: latitude and longitude are the fixed reference
  41.18478174 and -8.70657964 degrees in radians; the angles are the radian conversions
  of roll, pitch and yaw, i.e. the values of the published Euler angles, converted to
  \<^verbatim>\<open>fp32_t\<close>; the depth is the raw depth integer converted to \<^verbatim>\<open>fp32_t\<close>, without
  the division by 1000. In exact arithmetic the estimate's depth is 1000 times the value
  of the published depth message and its angles are those of the Euler angles. Under
  \<open>binary32\<close> the estimate's depth is the raw depth integer itself for every raw depth
  of magnitude below \<open>2 ^ 24\<close>.
\<close>

theorem handlePioneerV2Telemetry_estimate:
  "generate_estimate_state_from_telemetry (m_args w) \<longrightarrow>
     drop 3 (published (new_events w (snd (handlePioneerV2Telemetry E msg w)))) =
       [EstimatedState (4118478174 / 100000000 * pi / 180) (- 870657964 / 100000000 * pi / 180)
          (fp32 E (roll msg * pi / 180)) (fp32 E (pitch msg * pi / 180))
          (fp32 E (yaw msg * pi / 180)) (fp32 E (real_of_int (depth msg)))] \<and>
     es_phi (published (new_events w (snd (handlePioneerV2Telemetry E msg w))) ! 3) =
       fp32 E (euler_phi (published (new_events w (snd (handlePioneerV2Telemetry E msg w))) ! 1)) \<and>
     es_theta (published (new_events w (snd (handlePioneerV2Telemetry E msg w))) ! 3) =
       fp32 E (euler_theta (published (new_events w (snd (handlePioneerV2Telemetry E msg w))) ! 1)) \<and>
     es_psi (published (new_events w (snd (handlePioneerV2Telemetry E msg w))) ! 3) =
       fp32 E (euler_psi (published (new_events w (snd (handlePioneerV2Telemetry E msg w))) ! 1)) \<and>
     ((\<forall>x. fp32 E x = x) \<longrightarrow>
        es_depth (published (new_events w (snd (handlePioneerV2Telemetry E msg w))) ! 3) =
          real_of_int (depth msg) \<and>
        es_depth (published (new_events w (snd (handlePioneerV2Telemetry E msg w))) ! 3) =
          1000 * depth_value (published (new_events w (snd (handlePioneerV2Telemetry E msg w))) ! 0) \<and>
        es_phi (published (new_events w (snd (handlePioneerV2Telemetry E msg w))) ! 3) =
          euler_phi (published (new_events w (snd (handlePioneerV2Telemetry E msg w))) ! 1)) \<and>
     (fp32 E = binary32 \<and> \<bar>depth msg\<bar> < 16777216 \<longrightarrow>
        es_depth (published (new_events w (snd (handlePioneerV2Telemetry E msg w))) ! 3) =
          real_of_int (depth msg))"
  by (simp add: handlePioneerV2Telemetry_run radians_def binary32_of_int)

text \<open>
  The sample record with the flag on: under \<open>binary32\<close> the estimate carries depth
  1500, and in exact arithmetic the whole estimate is as computed.
\<close>

theorem handlePioneerV2Telemetry_estimate_witness:
  "es_depth (published (new_events
      (sample_task\<lparr>m_args := sample_args\<lparr>generate_estimate_state_from_telemetry := True\<rparr>\<rparr>)
      (snd (handlePioneerV2Telemetry sample_env sample_v2
        (sample_task\<lparr>m_args := sample_args\<lparr>generate_estimate_state_from_telemetry := True\<rparr>\<rparr>)))) ! 3) =
     1500 \<and>
   published (new_events
      (sample_task\<lparr>m_args := sample_args\<lparr>generate_estimate_state_from_telemetry := True\<rparr>\<rparr>)
      (snd (handlePioneerV2Telemetry (sample_env\<lparr>fp32 := \<lambda>x. x\<rparr>) sample_v2
        (sample_task\<lparr>m_args := sample_args\<lparr>generate_estimate_state_from_telemetry := True\<rparr>\<rparr>)))) ! 3 =
     EstimatedState (4118478174 / 100000000 * pi / 180) (- 870657964 / 100000000 * pi / 180)
       (pi / 2) 0 pi 1500"
  using handlePioneerV2Telemetry_estimate
      [of "sample_task\<lparr>m_args := sample_args\<lparr>generate_estimate_state_from_telemetry := True\<rparr>\<rparr>"
        sample_env sample_v2]
    handlePioneerV2Telemetry_estimate
      [of "sample_task\<lparr>m_args := sample_args\<lparr>generate_estimate_state_from_telemetry := True\<rparr>\<rparr>"
        "sample_env\<lparr>fp32 := \<lambda>x. x\<rparr>" sample_v2]
  by (simp add: handlePioneerV2Telemetry_run radians_def sample_v2_def sample_task_def
      sample_args_def sample_env_def new_events_def binary32_samples)

text \<open>
  C10 as stated fails under \<open>binary32\<close>: for a record with raw depth 1 the published
  depth is the single-precision quotient 8589935 / 8589934592 (about 0.0010000000475),
  the estimate's depth is 1, and 1000 times the former is not the latter.
\<close>

theorem handlePioneerV2Telemetry_estimate_counterexample:
  "depth_value (published (new_events
      (sample_task\<lparr>m_args := sample_args\<lparr>generate_estimate_state_from_telemetry := True\<rparr>\<rparr>)
      (snd (handlePioneerV2Telemetry sample_env
        \<lparr>v2_time = 5000, rt_clock = 7, roll = 0, pitch = 0, yaw = 0, depth = 1, temp_water = 215\<rparr>
        (sample_task\<lparr>m_args := sample_args\<lparr>generate_estimate_state_from_telemetry := True\<rparr>\<rparr>)))) ! 0) =
     8589935 / 8589934592 \<and>
   es_depth (published (new_events
      (sample_task\<lparr>m_args := sample_args\<lparr>generate_estimate_state_from_telemetry := True\<rparr>\<rparr>)
      (snd (handlePioneerV2Telemetry sample_env
        \<lparr>v2_time = 5000, rt_clock = 7, roll = 0, pitch = 0, yaw = 0, depth = 1, temp_water = 215\<rparr>
        (sample_task\<lparr>m_args := sample_args\<lparr>generate_estimate_state_from_telemetry := True\<rparr>\<rparr>)))) ! 3) =
     1 \<and>
   es_depth (published (new_events
      (sample_task\<lparr>m_args := sample_args\<lparr>generate_estimate_state_from_telemetry := True\<rparr>\<rparr>)
      (snd (handlePioneerV2Telemetry sample_env
        \<lparr>v2_time = 5000, rt_clock = 7, roll = 0, pitch = 0, yaw = 0, depth = 1, temp_water = 215\<rparr>
        (sample_task\<lparr>m_args := sample_args\<lparr>generate_estimate_state_from_telemetry := True\<rparr>\<rparr>)))) ! 3) \<noteq>
     1000 * depth_value (published (new_events
      (sample_task\<lparr>m_args := sample_args\<lparr>generate_estimate_state_from_telemetry := True\<rparr>\<rparr>)
      (snd (handlePioneerV2Telemetry sample_env
        \<lparr>v2_time = 5000, rt_clock = 7, roll = 0, pitch = 0, yaw = 0, depth = 1, temp_water = 215\<rparr>
        (sample_task\<lparr>m_args := sample_args\<lparr>generate_estimate_state_from_telemetry := True\<rparr>\<rparr>)))) ! 0)"
  by (simp add: handlePioneerV2Telemetry_run radians_def sample_task_def sample_args_def
      sample_env_def new_events_def binary32_samples)

end
